theory Spec2Isabelle
  imports Complex_Main
begin

section \<open>JSON values and the JavaScript default operator\<close>

text \<open>
  Both scripts read their configuration with \<^verbatim>\<open>JSON.parse\<close> and default every optional
  field with \<^verbatim>\<open>cfg.field || default\<close>. A field that is absent reads as \<^verbatim>\<open>undefined\<close>,
  which is \<open>None\<close> here. JavaScript numbers are modelled as reals.
\<close>

datatype json =
    JNull
  | JBool bool
  | JNum real
  | JStr string
  | JArr "json list"
  | JObj "(string \<times> json) list"

type_synonym config = "string \<rightharpoonup> json"

text \<open>ToBoolean on what a parsed JSON document can hold.\<close>

fun truthy :: "json option \<Rightarrow> bool" where
  "truthy None = False"
| "truthy (Some JNull) = False"
| "truthy (Some (JBool b)) = b"
| "truthy (Some (JNum x)) = (x \<noteq> 0)"
| "truthy (Some (JStr s)) = (s \<noteq> [])"
| "truthy (Some (JArr xs)) = True"
| "truthy (Some (JObj kvs)) = True"

text \<open>\<^verbatim>\<open>a || d\<close>: the left operand when it is truthy, the right one otherwise.\<close>

definition js_or :: "json option \<Rightarrow> json \<Rightarrow> json" where
  "js_or a d = (case a of None \<Rightarrow> d | Some v \<Rightarrow> if truthy (Some v) then v else d)"

text \<open>Property read \<^verbatim>\<open>v.k\<close> on a parsed value: only objects carry the fields read here.\<close>

fun member :: "json \<Rightarrow> string \<Rightarrow> json option" where
  "member (JObj kvs) k = map_of kvs k"
| "member v k = None"

text \<open>
  The values below are used as numbers and strings afterwards. JavaScript's coercions of
  values of another type (a string where a number is expected) are outside this model:
  \<open>as_num\<close> and \<open>as_str\<close> are defined on the values of the expected type only.
\<close>

fun as_num :: "json \<Rightarrow> real option" where
  "as_num (JNum x) = Some x"
| "as_num v = None"

fun as_str :: "json \<Rightarrow> string option" where
  "as_str (JStr s) = Some s"
| "as_str v = None"

section \<open>AEBridge\_Render.jsx: configuration variables (lines 109--122)\<close>

record render_vars =
  projectPath :: "json option"
  compName :: json
  frameRate :: json
  globalFirst :: json
  globalLast :: json
  outputPath :: "json option"
  outputSettings :: json
  templateName :: json
  desiredChannels :: json
  desiredDepth :: json
  desiredColor :: json
  desiredQuality :: json
  desiredPremult :: bool

definition render_vars_of :: "config \<Rightarrow> render_vars" where
  "render_vars_of cfg =
     (let os = js_or (cfg ''output_settings'') (JObj []) in
      \<lparr> projectPath = cfg ''project_path'',
        compName = js_or (cfg ''comp_name'') (JStr ''AEBridge''),
        frameRate = js_or (cfg ''frame_rate'') (JNum 24),
        globalFirst = js_or (cfg ''global_first'') (JNum 0),
        globalLast = js_or (cfg ''global_last'') (JNum 0),
        outputPath = cfg ''output_path'',
        outputSettings = os,
        templateName = js_or (member os ''template_name'') (JStr []),
        desiredChannels = js_or (member os ''channels'') (JStr ''RGB + Alpha''),
        desiredDepth = js_or (member os ''depth'') (JStr ''16 Bits/Channel''),
        desiredColor = js_or (member os ''color'') (JStr ''Straight (Unmatted)''),
        desiredQuality = js_or (member os ''quality'') (JNum 100),
        desiredPremult = truthy (member os ''premultiplied'') \<rparr>)"

text \<open>
  Line 124: \<^verbatim>\<open>if (!projectPath || !outputPath) alertAndStop(...)\<close>.
\<close>

definition render_required_missing :: "render_vars \<Rightarrow> bool" where
  "render_required_missing v \<longleftrightarrow> \<not> truthy (projectPath v) \<or> \<not> truthy (outputPath v)"

section \<open>AEBridge\_Render.jsx: the output module (lines 226--314)\<close>

text \<open>
  The output module is an object of the host application. The model keeps the list of
  template names it offers and the writes the host accepted, in the order they were made.
  Every host call can throw; which calls the host rejects is a parameter.
\<close>

datatype om_write =
    ApplyTemplate string
  | SetSetting string string json
  | SetIncludeSourceXMP bool
  | SetFile string

record outmod =
  om_templates :: "string list"
  om_writes :: "om_write list"

record om_host =
  templates_unreadable :: bool
  om_rejects :: "om_write \<Rightarrow> bool"

record rctx =
  om :: outmod
  shown :: "string list"

text \<open>
  What a script throws: the message of \<^verbatim>\<open>alertAndStop\<close>, a call that the host rejected,
  the cancellation and the timeout of the startup script. \<open>IllTyped\<close> marks a
  configuration in which a value that the script reads is not of the expected type, which
  this model does not run.
\<close>

datatype error =
    Fatal string
  | HostRejected string
  | UserCancelled
  | ScriptTimeout
  | IllTyped

definition om_write_ok :: "om_write \<Rightarrow> rctx \<Rightarrow> rctx" where
  "om_write_ok w c = c\<lparr>om := (om c)\<lparr>om_writes := om_writes (om c) @ [w]\<rparr>\<rparr>"

text \<open>A write inside \<^verbatim>\<open>try { ... } catch (e) {}\<close>: a rejected write changes nothing.\<close>

definition try_write :: "om_host \<Rightarrow> om_write \<Rightarrow> rctx \<Rightarrow> rctx" where
  "try_write h w c = (if om_rejects h w then c else om_write_ok w c)"

text \<open>An unguarded write: a rejected write throws.\<close>

definition do_write :: "om_host \<Rightarrow> om_write \<Rightarrow> rctx \<Rightarrow> error + rctx" where
  "do_write h w c = (if om_rejects h w then Inl (HostRejected ''output module'') else Inr (om_write_ok w c))"

text \<open>
  \<^verbatim>\<open>applyTemplateByNames\<close>: the outer loop runs over the templates of the output module, the
  inner one over the wanted names; the first pair of equal strings is applied.
\<close>

fun first_template :: "string list \<Rightarrow> string list \<Rightarrow> string option" where
  "first_template [] names = None"
| "first_template (t # ts) names =
     (case find (\<lambda>n. t = n) names of
        Some n \<Rightarrow> Some n
      | None \<Rightarrow> first_template ts names)"

definition applyTemplateByNames :: "om_host \<Rightarrow> string list \<Rightarrow> rctx \<Rightarrow> string option \<times> rctx" where
  "applyTemplateByNames h names c =
     (if templates_unreadable h then (None, c)
      else case first_template (om_templates (om c)) names of
        None \<Rightarrow> (None, c)
      | Some n \<Rightarrow>
          if om_rejects h (ApplyTemplate n) then (None, c)
          else (Some n, om_write_ok (ApplyTemplate n) c))"

text \<open>\<^verbatim>\<open>!applied\<close> on a value that is \<^verbatim>\<open>null\<close> or a string.\<close>

definition not_applied :: "string option \<Rightarrow> bool" where
  "not_applied a \<longleftrightarrow> (case a of None \<Rightarrow> True | Some s \<Rightarrow> s = [])"

definition configureWithTemplate :: "om_host \<Rightarrow> string \<Rightarrow> string \<Rightarrow> rctx \<Rightarrow> error + (bool \<times> rctx)" where
  "configureWithTemplate h outfile name c =
     (case applyTemplateByNames h [name] c of (applied, c1) \<Rightarrow>
        if not_applied applied then
          Inr (False, c1\<lparr>shown := shown c1 @ [''WARNING: Output template not found: '' @ name]\<rparr>)
        else
          (case do_write h (SetFile outfile) c1 of
             Inl e \<Rightarrow> Inl e
           | Inr c2 \<Rightarrow> Inr (True, c2)))"

text \<open>The two alternate setters of the first frame number, the second tried when the first throws.\<close>

definition set_start_numbering :: "om_host \<Rightarrow> real \<Rightarrow> rctx \<Rightarrow> rctx" where
  "set_start_numbering h gf c =
     (if om_rejects h (SetSetting ''Output Module Settings'' ''Start Numbering'' (JNum gf)) then
        try_write h (SetSetting ''Output Module Settings'' ''Starting #'' (JNum gf)) c
      else om_write_ok (SetSetting ''Output Module Settings'' ''Start Numbering'' (JNum gf)) c)"

record out_params =
  p_templateName :: string
  p_globalFirst :: real
  p_channels :: json
  p_depth :: json
  p_color :: json
  p_quality :: json

definition default_templates :: "string list" where
  "default_templates =
     [''_HIDDEN X-Factor 8'', ''_HIDDEN X-Factor 8 Premul'', ''PNG Sequence'',
      ''Lossless with Alpha'', ''Lossless'']"

definition png_steps :: "om_host \<Rightarrow> out_params \<Rightarrow> string \<Rightarrow> rctx \<Rightarrow> error + (bool \<times> rctx)" where
  "png_steps h p outfile c1 =
     (let c2 = try_write h (SetSetting ''Output Module Settings'' ''Channels'' (p_channels p)) c1;
          c3 = try_write h (SetSetting ''Output Module Settings'' ''Depth'' (p_depth p)) c2;
          c4 = try_write h (SetSetting ''Output Module Settings'' ''Color'' (p_color p)) c3;
          c5 = try_write h (SetSetting ''PNG Options'' ''Quality'' (p_quality p)) c4;
          c6 = try_write h (SetSetting ''Format Options'' ''Quality'' (p_quality p)) c5;
          c7 = set_start_numbering h (p_globalFirst p) c6
      in case do_write h (SetFile outfile) c7 of
           Inl e \<Rightarrow> Inl e
         | Inr c8 \<Rightarrow> Inr (True, c8))"

definition configurePNGDefault :: "om_host \<Rightarrow> out_params \<Rightarrow> string \<Rightarrow> rctx \<Rightarrow> error + (bool \<times> rctx)" where
  "configurePNGDefault h p outfile c =
     (case applyTemplateByNames h default_templates c of (applied, c0) \<Rightarrow>
        if not_applied applied then
          (if om_rejects h (SetSetting ''Output Module Settings'' ''Format'' (JStr ''PNG Sequence'')) then
             Inr (False, c0\<lparr>shown := shown c0 @
               [''WARNING: Cannot set PNG output format. Please create an output module template containing \"PNG\" in After Effects.'']\<rparr>)
           else
             png_steps h p outfile
               (om_write_ok (SetSetting ''Output Module Settings'' ''Format'' (JStr ''PNG Sequence'')) c0))
        else png_steps h p outfile c0)"

definition configureOutputModule :: "om_host \<Rightarrow> out_params \<Rightarrow> string \<Rightarrow> rctx \<Rightarrow> error + (bool \<times> rctx)" where
  "configureOutputModule h p outfile c =
     (if p_templateName p \<noteq> [] \<and> length (p_templateName p) > 0 then
        (case configureWithTemplate h outfile (p_templateName p) c of
           Inl e \<Rightarrow> Inl e
         | Inr (success, c1) \<Rightarrow>
             if success then Inr (success, set_start_numbering h (p_globalFirst p) c1)
             else Inr (success, c1))
      else configurePNGDefault h p outfile c)"

text \<open>
  Lines 306--314: the configuration is executed; a failure is fatal (\<^verbatim>\<open>alertAndStop\<close>);
  then \<^verbatim>\<open>includeSourceXMP\<close> is tried and the file is assigned once more.
\<close>

definition cannot_configure_msg :: string where
  "cannot_configure_msg =
     ''ERROR: Cannot configure output module. Please check format settings or template name.''"

definition output_stage :: "om_host \<Rightarrow> out_params \<Rightarrow> string \<Rightarrow> rctx \<Rightarrow> error + rctx" where
  "output_stage h p outfile c =
     (case configureOutputModule h p outfile c of
        Inl e \<Rightarrow> Inl e
      | Inr (configSuccess, c1) \<Rightarrow>
          if \<not> configSuccess then Inl (Fatal cannot_configure_msg)
          else do_write h (SetFile outfile) (try_write h (SetIncludeSourceXMP True) c1))"

text \<open>A host that accepts every write to the output module.\<close>

definition om_host_ok :: om_host where
  "om_host_ok = \<lparr> templates_unreadable = False, om_rejects = (\<lambda>w. False) \<rparr>"

section \<open>AEBridge\_Startup.jsx: configuration variables (lines 162--178)\<close>

record startup_vars =
  raw_FRAME_RATE :: json
  raw_GLOBAL_FIRST :: json
  raw_GLOBAL_LAST :: json
  raw_COMP_NAME :: json
  raw_COMP_WIDTH :: json
  raw_COMP_HEIGHT :: json
  raw_items :: json
  raw_PROJECT_PATH :: "json option"
  raw_OUTPUT_PATH :: json
  raw_SHOULD_RENDER :: json
  raw_NUKE_COLORSPACE :: json
  raw_NUKE_WORKING_SPACE :: json
  raw_NUKE_OUTPUT_TRANSFORM :: json
  raw_ACES_COMPLIANT :: json

definition startup_vars_of :: "config \<Rightarrow> startup_vars" where
  "startup_vars_of config =
     \<lparr> raw_FRAME_RATE = js_or (config ''frame_rate'') (JNum 24),
       raw_GLOBAL_FIRST = js_or (config ''global_first'') (JNum 1),
       raw_GLOBAL_LAST = js_or (config ''global_last'') (JNum 100),
       raw_COMP_NAME = js_or (config ''comp_name'') (JStr ''AEBridge''),
       raw_COMP_WIDTH = js_or (config ''width'') (JNum 1920),
       raw_COMP_HEIGHT = js_or (config ''height'') (JNum 1080),
       raw_items = js_or (config ''items'') (JArr []),
       raw_PROJECT_PATH = config ''project_path'',
       raw_OUTPUT_PATH = js_or (config ''output_path'') (JStr []),
       raw_SHOULD_RENDER = js_or (config ''should_render'') (JBool False),
       raw_NUKE_COLORSPACE = js_or (config ''nuke_colorspace'') (JStr ''scene_linear''),
       raw_NUKE_WORKING_SPACE = js_or (config ''nuke_working_space'') (JStr ''linear''),
       raw_NUKE_OUTPUT_TRANSFORM = js_or (config ''nuke_output_transform'') (JStr []),
       raw_ACES_COMPLIANT = js_or (config ''aces_compliant'') (JBool False) \<rparr>"

section \<open>The project graph of the host application\<close>

text \<open>
  The scripts work on the project of the host application: a collection \<^verbatim>\<open>proj.items\<close> of
  compositions and footage items, each composition holding a collection of layers. Both
  collections are indexed from 1 in the host; position \<open>i\<close> of a list here is the host's
  index \<open>i + 1\<close>. An object is identified by its position: items are only ever added, at the
  end, and a layer reference held by a script is its current position in the layer
  collection. A new layer is added on top (position 0), as the host does.
\<close>

datatype alpha_mode = Straight | Premultiplied | Ignore

datatype main_source =
    FileSource string bool
  | SolidSource

text \<open>\<open>FileSource p still\<close>: \<^verbatim>\<open>mainSource.file.fsName\<close> is \<open>p\<close> and \<^verbatim>\<open>mainSource.isStill\<close> is \<open>still\<close>.\<close>

record footage =
  f_name :: string
  f_mainSource :: main_source
  f_duration :: real
  f_conformFrameRate :: real
  f_alphaMode :: alpha_mode

datatype src = SrcFootage nat | SrcComp nat

text \<open>
  A layer. \<open>l_source\<close> is the item the layer shows, with its class (\<^verbatim>\<open>instanceof FootageItem\<close>
  or \<^verbatim>\<open>CompItem\<close>), or \<open>None\<close> for a layer without source. \<open>l_timeRemap\<close> is the property
  \<^verbatim>\<open>"ADBE Time Remapping"\<close> with its keyframes (time, value) in order of time, \<open>None\<close> when
  the layer has no such property.
\<close>

record layer =
  l_name :: string
  l_source :: "src option"
  l_startTime :: real
  l_inPoint :: real
  l_outPoint :: real
  l_canSetTimeRemapEnabled :: bool
  l_timeRemapEnabled :: bool
  l_timeRemap :: "(real \<times> real) list option"

record comp =
  c_name :: string
  c_width :: real
  c_height :: real
  c_duration :: real
  c_frameRate :: real
  c_displayStartFrame :: real
  c_displayStartTime :: real
  c_workAreaStart :: real
  c_workAreaDuration :: real
  c_layers :: "layer list"

datatype item = CompItem comp | FootageItem footage

type_synonym project = "item list"

subsection \<open>What the host decides\<close>

datatype comp_prop =
    PFrameRate | PDuration | PWidth | PHeight
  | PDisplayStartFrame | PDisplayStartTime | PWorkAreaStart | PWorkAreaDuration

datatype layer_prop = PName | PStartTime | PInPoint | POutPoint | PTimeRemapEnabled

text \<open>
  The calls into the host that the scripts make. Comp and footage items are named by their
  position in the project, layers by the position of their comp and their own position.
\<close>

datatype hostop =
    SetComp nat comp_prop
  | AddComp string
  | Reload nat
  | ReplaceWithSequence nat string
  | Replace nat string
  | ImportFile string
  | SetConformFrameRate nat
  | SetAlphaMode nat
  | GuessAlphaMode nat
  | AddLayer nat src
  | AddSolid nat string
  | ReplaceSource nat nat
  | RemoveLayer nat nat
  | SetLayer nat nat layer_prop
  | RemoveKey nat nat
  | SetValueAtTime nat nat real
  | OpenProject "string option"
  | NewProject
  | CreateFolder
  | SaveProject "string option"
  | RemoveRenderItem nat
  | AddRenderItem nat
  | RenderAll

text \<open>
  \<open>rejects\<close>: the calls that throw. \<open>file_exists\<close> and \<open>fsName\<close>: \<^verbatim>\<open>File.exists\<close> and
  \<^verbatim>\<open>File.fsName\<close> (\<open>None\<close> is \<^verbatim>\<open>new File(undefined)\<close>). \<open>media_name\<close> and \<open>media_duration\<close>:
  the name and the duration the host gives to the sequence that starts at a file.
  \<open>stored_project\<close>: the items of a project file. \<open>cancelled_before\<close> and
  \<open>timed_out_before\<close>: what the cancel flag and \<^verbatim>\<open>checkTimeout()\<close> say before an item.
\<close>

record host =
  rejects :: "hostop \<Rightarrow> bool"
  file_exists :: "string option \<Rightarrow> bool"
  parent_exists :: "string option \<Rightarrow> bool"
  fsName :: "string \<Rightarrow> string"
  media_name :: "string \<Rightarrow> string"
  media_duration :: "string \<Rightarrow> real"
  guessed_alpha :: "string \<Rightarrow> alpha_mode"
  stored_project :: "string option \<Rightarrow> project"
  cancelled_before :: "nat \<Rightarrow> bool"
  timed_out_before :: "nat \<Rightarrow> bool"
  host_templates :: "string list"
  om_h :: om_host

subsection \<open>The typed configuration of the startup script\<close>

text \<open>
  One item of \<^verbatim>\<open>config.items\<close>. The script reads \<^verbatim>\<open>it.name\<close> and
  \<^verbatim>\<open>it.first_file || it.path\<close> for every item, and \<^verbatim>\<open>it.first\<close> and \<^verbatim>\<open>it.last\<close> only
  when the footage of the item resolves (line 658). \<open>s_numeric\<close> says that both are
  numbers; \<open>s_first\<close> and \<open>s_last\<close> are then their values, and are not read otherwise.
\<close>

record shot =
  s_name :: string
  s_file :: "string option"
  s_first :: real
  s_last :: real
  s_numeric :: bool

record settings =
  FRAME_RATE :: real
  GLOBAL_FIRST :: real
  GLOBAL_LAST :: real
  COMP_NAME :: string
  COMP_WIDTH :: real
  COMP_HEIGHT :: real
  items :: "shot list"
  PROJECT_PATH :: "string option"
  OUTPUT_PATH :: string
  SHOULD_RENDER :: bool

definition DURATION :: "settings \<Rightarrow> real" where
  "DURATION st = (GLOBAL_LAST st - GLOBAL_FIRST st + 1) / FRAME_RATE st"

text \<open>A path that is a string, or absent (\<^verbatim>\<open>undefined\<close>).\<close>

fun path_of :: "json option \<Rightarrow> string option option" where
  "path_of None = Some None"
| "path_of (Some (JStr s)) = Some (Some s)"
| "path_of (Some v) = None"

text \<open>
  \<^verbatim>\<open>it.first_file || it.path\<close> (line 596). The resolver returns \<^verbatim>\<open>null\<close> on every falsy
  value (\<^verbatim>\<open>if (!firstFile) return null\<close>, line 387) and uses a truthy one as a path.
\<close>

definition first_file_or_path :: "json \<Rightarrow> json option" where
  "first_file_or_path it =
     (if truthy (member it ''first_file'') then member it ''first_file'' else member it ''path'')"

definition file_of_shot :: "json \<Rightarrow> string option option" where
  "file_of_shot it =
     (if \<not> truthy (first_file_or_path it) then Some None
      else path_of (first_file_or_path it))"

definition shot_of :: "json \<Rightarrow> shot option" where
  "shot_of it =
     (case (Option.bind (member it ''name'') as_str, file_of_shot it) of
        (Some n, Some f) \<Rightarrow>
          (case (Option.bind (member it ''first'') as_num,
                 Option.bind (member it ''last'') as_num) of
             (Some a, Some b) \<Rightarrow>
               Some \<lparr> s_name = n, s_file = f, s_first = a, s_last = b, s_numeric = True \<rparr>
           | _ \<Rightarrow>
               Some \<lparr> s_name = n, s_file = f, s_first = 0, s_last = 0, s_numeric = False \<rparr>)
      | _ \<Rightarrow> None)"

fun shots_of :: "json \<Rightarrow> shot list option" where
  "shots_of (JArr xs) = those (map shot_of xs)"
| "shots_of v = None"

definition settings_of :: "startup_vars \<Rightarrow> settings option" where
  "settings_of v =
     (case (as_num (raw_FRAME_RATE v), as_num (raw_GLOBAL_FIRST v), as_num (raw_GLOBAL_LAST v)) of
        (Some fr, Some gf, Some gl) \<Rightarrow>
          (case (as_str (raw_COMP_NAME v), as_num (raw_COMP_WIDTH v), as_num (raw_COMP_HEIGHT v)) of
             (Some cn, Some w, Some ht) \<Rightarrow>
               (case (shots_of (raw_items v), path_of (raw_PROJECT_PATH v),
                      as_str (raw_OUTPUT_PATH v)) of
                  (Some its, Some pp, Some outp) \<Rightarrow>
                    Some \<lparr> FRAME_RATE = fr, GLOBAL_FIRST = gf, GLOBAL_LAST = gl, COMP_NAME = cn,
                           COMP_WIDTH = w, COMP_HEIGHT = ht, items = its, PROJECT_PATH = pp,
                           OUTPUT_PATH = outp,
                           SHOULD_RENDER = truthy (Some (raw_SHOULD_RENDER v)) \<rparr>
                | _ \<Rightarrow> None)
           | _ \<Rightarrow> None)
      | _ \<Rightarrow> None)"

subsection \<open>Reading and updating the graph\<close>

fun first_index :: "('a \<Rightarrow> bool) \<Rightarrow> 'a list \<Rightarrow> nat option" where
  "first_index P [] = None"
| "first_index P (x # xs) = (if P x then Some 0 else map_option Suc (first_index P xs))"

definition remove_at :: "nat \<Rightarrow> 'a list \<Rightarrow> 'a list" where
  "remove_at i xs = take i xs @ drop (Suc i) xs"

definition upd_comp :: "nat \<Rightarrow> (comp \<Rightarrow> comp) \<Rightarrow> project \<Rightarrow> project" where
  "upd_comp i f proj =
     (if i < length proj then
        (case proj ! i of CompItem c \<Rightarrow> proj[i := CompItem (f c)] | FootageItem x \<Rightarrow> proj)
      else proj)"

definition upd_footage :: "nat \<Rightarrow> (footage \<Rightarrow> footage) \<Rightarrow> project \<Rightarrow> project" where
  "upd_footage i f proj =
     (if i < length proj then
        (case proj ! i of FootageItem x \<Rightarrow> proj[i := FootageItem (f x)] | CompItem c \<Rightarrow> proj)
      else proj)"

text \<open>Position \<open>i\<close> of the project holds a composition.\<close>

definition is_comp_at :: "project \<Rightarrow> nat \<Rightarrow> bool" where
  "is_comp_at proj i \<longleftrightarrow>
     i < length proj \<and> (case proj ! i of CompItem c \<Rightarrow> True | FootageItem x \<Rightarrow> False)"

definition layers_of :: "project \<Rightarrow> nat \<Rightarrow> layer list" where
  "layers_of proj i =
     (if i < length proj then
        (case proj ! i of CompItem c \<Rightarrow> c_layers c | FootageItem x \<Rightarrow> [])
      else [])"

definition set_layers :: "nat \<Rightarrow> layer list \<Rightarrow> project \<Rightarrow> project" where
  "set_layers i ls proj = upd_comp i (\<lambda>c. c\<lparr>c_layers := ls\<rparr>) proj"

definition item_name :: "project \<Rightarrow> src \<Rightarrow> string" where
  "item_name proj s =
     (case s of
        SrcFootage i \<Rightarrow>
          (if i < length proj then
             (case proj ! i of FootageItem x \<Rightarrow> f_name x | CompItem c \<Rightarrow> []) else [])
      | SrcComp i \<Rightarrow>
          (if i < length proj then
             (case proj ! i of CompItem c \<Rightarrow> c_name c | FootageItem x \<Rightarrow> []) else []))"

definition item_duration :: "project \<Rightarrow> src \<Rightarrow> real" where
  "item_duration proj s =
     (case s of
        SrcFootage i \<Rightarrow>
          (if i < length proj then
             (case proj ! i of FootageItem x \<Rightarrow> f_duration x | CompItem c \<Rightarrow> 0) else 0)
      | SrcComp i \<Rightarrow>
          (if i < length proj then
             (case proj ! i of CompItem c \<Rightarrow> c_duration c | FootageItem x \<Rightarrow> 0) else 0))"

definition item_can_remap :: "project \<Rightarrow> src \<Rightarrow> bool" where
  "item_can_remap proj s =
     (case s of
        SrcFootage i \<Rightarrow>
          (if i < length proj then
             (case proj ! i of
                FootageItem x \<Rightarrow>
                  (case f_mainSource x of FileSource p still \<Rightarrow> \<not> still | SolidSource \<Rightarrow> False)
              | CompItem c \<Rightarrow> False)
           else False)
      | SrcComp i \<Rightarrow> True)"

text \<open>
  The layer the host makes for \<^verbatim>\<open>layers.add(item)\<close>: named after the item, starting at 0,
  as long as the item, without time remapping.
\<close>

definition layer_of_item :: "project \<Rightarrow> src \<Rightarrow> layer" where
  "layer_of_item proj s =
     \<lparr> l_name = item_name proj s, l_source = Some s, l_startTime = 0, l_inPoint = 0,
       l_outPoint = item_duration proj s, l_canSetTimeRemapEnabled = item_can_remap proj s,
       l_timeRemapEnabled = False, l_timeRemap = Some [] \<rparr>"

section \<open>AEBridge\_Startup.jsx: compositions (lines 251--325)\<close>

definition syncCompSettings :: "host \<Rightarrow> settings \<Rightarrow> nat \<Rightarrow> comp \<Rightarrow> comp" where
  "syncCompSettings h st ci cmp =
     (let c1 = (if \<bar>c_frameRate cmp - FRAME_RATE st\<bar> > 0.01 \<and> \<not> rejects h (SetComp ci PFrameRate)
                then cmp\<lparr>c_frameRate := FRAME_RATE st\<rparr> else cmp);
          c2 = (if \<bar>c_duration c1 - DURATION st\<bar> > 0.01 \<and> \<not> rejects h (SetComp ci PDuration)
                then c1\<lparr>c_duration := DURATION st\<rparr> else c1);
          c3 = (if c_width c2 \<noteq> COMP_WIDTH st \<or> c_height c2 \<noteq> COMP_HEIGHT st then
                  (if rejects h (SetComp ci PWidth) then c2
                   else if rejects h (SetComp ci PHeight) then c2\<lparr>c_width := COMP_WIDTH st\<rparr>
                   else c2\<lparr>c_width := COMP_WIDTH st, c_height := COMP_HEIGHT st\<rparr>)
                else c2);
          c4 = (if rejects h (SetComp ci PDisplayStartFrame) then
                  (if rejects h (SetComp ci PDisplayStartTime) then c3
                   else c3\<lparr>c_displayStartTime := (GLOBAL_FIRST st - 1) / FRAME_RATE st\<rparr>)
                else c3\<lparr>c_displayStartFrame := GLOBAL_FIRST st\<rparr>);
          c5 = (if rejects h (SetComp ci PWorkAreaStart) then c4
                else if rejects h (SetComp ci PWorkAreaDuration) then c4\<lparr>c_workAreaStart := 0\<rparr>
                else c4\<lparr>c_workAreaStart := 0, c_workAreaDuration := DURATION st\<rparr>)
      in c5)"

text \<open>
  The frame a time denotes. The script converts frames to seconds by dividing by the frame
  rate (lines 504--505) and counts the frames of a duration as
  \<^verbatim>\<open>duration * frameRate\<close> (lines 281 and 299).
\<close>

definition frame_of_time :: "settings \<Rightarrow> real \<Rightarrow> real" where
  "frame_of_time st t = t * FRAME_RATE st"

definition is_comp_named :: "string \<Rightarrow> item \<Rightarrow> bool" where
  "is_comp_named name it = (case it of CompItem c \<Rightarrow> c_name c = name | FootageItem x \<Rightarrow> False)"

definition findCompByName :: "project \<Rightarrow> string \<Rightarrow> nat option" where
  "findCompByName proj name = first_index (is_comp_named name) proj"

text \<open>\<^verbatim>\<open>proj.items.addComp(name, COMP_WIDTH, COMP_HEIGHT, 1.0, DURATION, FRAME_RATE)\<close>.\<close>

definition new_comp :: "settings \<Rightarrow> string \<Rightarrow> comp" where
  "new_comp st name =
     \<lparr> c_name = name, c_width = COMP_WIDTH st, c_height = COMP_HEIGHT st,
       c_duration = DURATION st, c_frameRate = FRAME_RATE st, c_displayStartFrame = 0,
       c_displayStartTime = 0, c_workAreaStart = 0, c_workAreaDuration = DURATION st,
       c_layers = [] \<rparr>"

definition ensureComp :: "host \<Rightarrow> settings \<Rightarrow> string \<Rightarrow> project \<Rightarrow> error + (nat \<times> project)" where
  "ensureComp h st name proj =
     (case findCompByName proj name of
        None \<Rightarrow>
          if rejects h (AddComp name) then Inl (HostRejected ''addComp'')
          else Inr (length proj,
                    proj @ [CompItem (syncCompSettings h st (length proj) (new_comp st name))])
      | Some i \<Rightarrow> Inr (i, upd_comp i (syncCompSettings h st i) proj))"

section \<open>AEBridge\_Startup.jsx: footage resolution (lines 327--444)\<close>

definition has_file :: "string \<Rightarrow> item \<Rightarrow> bool" where
  "has_file target it =
     (case it of
        FootageItem x \<Rightarrow>
          (case f_mainSource x of FileSource p still \<Rightarrow> p = target | SolidSource \<Rightarrow> False)
      | CompItem c \<Rightarrow> False)"

definition findFootageByFirstFile :: "host \<Rightarrow> project \<Rightarrow> string \<Rightarrow> nat option" where
  "findFootageByFirstFile h proj firstFile =
     (if firstFile = [] then None else first_index (has_file (fsName h firstFile)) proj)"

text \<open>
  The suffix test of \<^verbatim>\<open>findFootageByName\<close>:
  \<^verbatim>\<open>/^[_\.\[\]0-9\-]+\.(exr|dpx|tif|tiff|jpg|jpeg|png)$/i\<close>.
\<close>

definition lower :: "char \<Rightarrow> char" where
  "lower c =
     (case map_of (zip ''ABCDEFGHIJKLMNOPQRSTUVWXYZ'' ''abcdefghijklmnopqrstuvwxyz'') c of
        Some d \<Rightarrow> d | None \<Rightarrow> c)"

definition seq_char :: "char \<Rightarrow> bool" where
  "seq_char c \<longleftrightarrow> c \<in> set ''_.[]0123456789-''"

definition image_exts :: "string list" where
  "image_exts = [''exr'', ''dpx'', ''tif'', ''tiff'', ''jpg'', ''jpeg'', ''png'']"

definition seq_suffix :: "string \<Rightarrow> bool" where
  "seq_suffix s =
     list_ex (\<lambda>e. length e + 1 < length s
                \<and> map lower (drop (length s - (length e + 1)) s) = CHR ''.'' # e
                \<and> list_all seq_char (take (length s - (length e + 1)) s))
       image_exts"

definition is_footage_named :: "string \<Rightarrow> item \<Rightarrow> bool" where
  "is_footage_named name it =
     (case it of FootageItem x \<Rightarrow> f_name x = name | CompItem c \<Rightarrow> False)"

definition is_sequence_named :: "string \<Rightarrow> item \<Rightarrow> bool" where
  "is_sequence_named name it =
     (case it of
        FootageItem x \<Rightarrow>
          take (length name) (f_name x) = name \<and> seq_suffix (drop (length name) (f_name x))
      | CompItem c \<Rightarrow> False)"

definition findFootageByName :: "project \<Rightarrow> string \<Rightarrow> nat option" where
  "findFootageByName proj name =
     (if name = [] then None
      else case first_index (is_footage_named name) proj of
             Some i \<Rightarrow> Some i
           | None \<Rightarrow> first_index (is_sequence_named name) proj)"

text \<open>\<^verbatim>\<open>try { x.mainSource.reload(); } catch (e) {}\<close>: the host reads the duration again.\<close>

definition reload :: "host \<Rightarrow> nat \<Rightarrow> project \<Rightarrow> project" where
  "reload h i proj =
     (if rejects h (Reload i) then proj
      else upd_footage i
             (\<lambda>x. case f_mainSource x of
                    FileSource p still \<Rightarrow> x\<lparr>f_duration := media_duration h p\<rparr>
                  | SolidSource \<Rightarrow> x) proj)"

text \<open>The file of an item, when it is a footage item backed by a file (line 404).\<close>

definition file_of_item :: "project \<Rightarrow> nat \<Rightarrow> string option" where
  "file_of_item proj i =
     (if i < length proj then
        (case proj ! i of
           FootageItem x \<Rightarrow>
             (case f_mainSource x of FileSource p still \<Rightarrow> Some p | SolidSource \<Rightarrow> None)
         | CompItem c \<Rightarrow> None)
      else None)"

text \<open>
  \<^verbatim>\<open>replaceWithSequence(f, false)\<close> and \<^verbatim>\<open>replace(f)\<close>: the item stays the same object
  and keeps its name; it now shows the sequence that starts at the file, or the single file.
\<close>

definition swap_source :: "host \<Rightarrow> nat \<Rightarrow> string \<Rightarrow> bool \<Rightarrow> project \<Rightarrow> project" where
  "swap_source h i f still proj =
     upd_footage i
       (\<lambda>x. x\<lparr>f_mainSource := FileSource (fsName h f) still,
               f_duration := media_duration h (fsName h f)\<rparr>) proj"

text \<open>\<^verbatim>\<open>proj.importFile(io)\<close> with \<^verbatim>\<open>io.sequence = true\<close>.\<close>

definition imported :: "host \<Rightarrow> string \<Rightarrow> footage" where
  "imported h f =
     \<lparr> f_name = media_name h f, f_mainSource = FileSource (fsName h f) False,
       f_duration = media_duration h (fsName h f), f_conformFrameRate = 0,
       f_alphaMode = Straight \<rparr>"

definition importOrUpdateSequence ::
  "host \<Rightarrow> string option \<Rightarrow> string \<Rightarrow> project \<Rightarrow> error + (nat option \<times> project)" where
  "importOrUpdateSequence h firstFile layerName proj =
     (case firstFile of
        None \<Rightarrow> Inr (None, proj)
      | Some f \<Rightarrow>
          if f = [] then Inr (None, proj)
          else if \<not> file_exists h (Some f) then Inr (None, proj)
          else
            (case findFootageByFirstFile h proj f of
               Some existing \<Rightarrow> Inr (Some existing, reload h existing proj)
             | None \<Rightarrow>
                 (case findFootageByName proj layerName of
                    None \<Rightarrow>
                      if rejects h (ImportFile f) then Inl (HostRejected ''importFile'')
                      else Inr (Some (length proj), proj @ [FootageItem (imported h f)])
                  | Some same \<Rightarrow>
                      (case file_of_item proj same of
                         None \<Rightarrow>
                           if rejects h (ImportFile f) then Inl (HostRejected ''importFile'')
                           else Inr (Some (length proj), proj @ [FootageItem (imported h f)])
                       | Some oldFile \<Rightarrow>
                           if oldFile \<noteq> fsName h f then
                             (if \<not> rejects h (ReplaceWithSequence same f) then
                                Inr (Some same, reload h same (swap_source h same f False proj))
                              else if \<not> rejects h (Replace same f) then
                                Inr (Some same, reload h same (swap_source h same f True proj))
                              else Inr (Some same, reload h same proj))
                           else Inr (Some same, reload h same proj)))))"

section \<open>AEBridge\_Startup.jsx: the source layer (lines 446--558)\<close>

text \<open>\<^verbatim>\<open>lay.name === layerName && lay.source && lay.source instanceof FootageItem\<close>.\<close>

definition is_source_layer :: "string \<Rightarrow> layer \<Rightarrow> bool" where
  "is_source_layer layerName lay \<longleftrightarrow>
     l_name lay = layerName \<and>
     (case l_source lay of Some (SrcFootage i) \<Rightarrow> True | Some (SrcComp i) \<Rightarrow> False | None \<Rightarrow> False)"

text \<open>
  Lines 447--470: the first layer that is a source layer is the target; without one a layer
  is added for the footage; a target that shows other footage is bound to the footage in
  place, or removed and added again when \<^verbatim>\<open>replaceSource\<close> throws. The result is the position
  of the target and the layers, or \<open>None\<close> for \<^verbatim>\<open>return null\<close>.
\<close>

definition bind_target ::
  "host \<Rightarrow> nat \<Rightarrow> project \<Rightarrow> nat option \<Rightarrow> string \<Rightarrow> layer list \<Rightarrow> error + (nat \<times> layer list) option" where
  "bind_target h ci proj footage layerName ls =
     (case first_index (is_source_layer layerName) ls of
        None \<Rightarrow>
          (case footage of
             None \<Rightarrow> Inr None
           | Some fi \<Rightarrow>
               if rejects h (AddLayer ci (SrcFootage fi)) then Inl (HostRejected ''layers.add'')
               else Inr (Some (0, layer_of_item proj (SrcFootage fi) # ls)))
      | Some t \<Rightarrow>
          (case footage of
             None \<Rightarrow> Inr (Some (t, ls))
           | Some fi \<Rightarrow>
               if l_source (ls ! t) \<noteq> Some (SrcFootage fi) then
                 (if \<not> rejects h (ReplaceSource ci t) then
                    Inr (Some (t, ls[t := (ls ! t)\<lparr>l_source := Some (SrcFootage fi)\<rparr>]))
                  else if rejects h (RemoveLayer ci t) then Inl (HostRejected ''remove'')
                  else if rejects h (AddLayer ci (SrcFootage fi)) then
                    Inl (HostRejected ''layers.add'')
                  else Inr (Some (0, layer_of_item proj (SrcFootage fi) # remove_at t ls)))
               else Inr (Some (t, ls))))"

text \<open>Lines 480--499: the interpretation of footage that is not a still.\<close>

definition interpret_footage :: "host \<Rightarrow> settings \<Rightarrow> nat \<Rightarrow> project \<Rightarrow> project" where
  "interpret_footage h st fi proj =
     upd_footage fi
       (\<lambda>x. case f_mainSource x of
               SolidSource \<Rightarrow> x
             | FileSource p still \<Rightarrow>
                 if still then x
                 else if rejects h (SetConformFrameRate fi) then x
                 else if rejects h (GuessAlphaMode fi) then x\<lparr>f_conformFrameRate := FRAME_RATE st\<rparr>
                 else x\<lparr>f_conformFrameRate := FRAME_RATE st, f_alphaMode := guessed_alpha h p\<rparr>)
       proj"

text \<open>Lines 503--506.\<close>

definition layerStartTime :: "settings \<Rightarrow> real \<Rightarrow> real" where
  "layerStartTime st startFrame = (startFrame - GLOBAL_FIRST st) / FRAME_RATE st"

definition layerDuration :: "settings \<Rightarrow> real \<Rightarrow> real \<Rightarrow> real" where
  "layerDuration st startFrame endFrame = (endFrame - startFrame + 1) / FRAME_RATE st"

definition layerEndTime :: "settings \<Rightarrow> real \<Rightarrow> real \<Rightarrow> real" where
  "layerEndTime st startFrame endFrame =
     layerStartTime st startFrame + layerDuration st startFrame endFrame"

text \<open>Lines 510--512: three writes outside any \<^verbatim>\<open>try\<close>.\<close>

definition set_timing ::
  "host \<Rightarrow> settings \<Rightarrow> nat \<Rightarrow> nat \<Rightarrow> real \<Rightarrow> real \<Rightarrow> layer \<Rightarrow> error + layer" where
  "set_timing h st ci t startFrame endFrame lay =
     (if rejects h (SetLayer ci t PStartTime) then Inl (HostRejected ''startTime'')
      else if rejects h (SetLayer ci t PInPoint) then Inl (HostRejected ''inPoint'')
      else if rejects h (SetLayer ci t POutPoint) then Inl (HostRejected ''outPoint'')
      else Inr (lay\<lparr>l_startTime := layerStartTime st startFrame,
                    l_inPoint := layerStartTime st startFrame,
                    l_outPoint := layerEndTime st startFrame endFrame\<rparr>))"

text \<open>
  \<^verbatim>\<open>while (timeRemapProp.numKeys > 0) timeRemapProp.removeKey(1)\<close>: the result says
  whether a removal threw, and gives the keys that are left.
\<close>

fun removeKeys :: "bool \<Rightarrow> (real \<times> real) list \<Rightarrow> bool \<times> (real \<times> real) list" where
  "removeKeys rej [] = (False, [])"
| "removeKeys rej (k # ks) = (if rej then (True, k # ks) else removeKeys rej ks)"

text \<open>\<^verbatim>\<open>setValueAtTime(t, v)\<close>: the key at time \<open>t\<close> is set, or added in order of time.\<close>

fun setValueAtTime :: "real \<Rightarrow> real \<Rightarrow> (real \<times> real) list \<Rightarrow> (real \<times> real) list" where
  "setValueAtTime t v [] = [(t, v)]"
| "setValueAtTime t v ((t', v') # ks) =
     (if t = t' then (t, v) # ks
      else if t < t' then (t, v) # (t', v') # ks
      else (t', v') # setValueAtTime t v ks)"

text \<open>Lines 516--540, all inside one \<^verbatim>\<open>try\<close>: a call that throws ends the block.\<close>

definition time_remap ::
  "host \<Rightarrow> settings \<Rightarrow> nat \<Rightarrow> nat \<Rightarrow> real \<Rightarrow> real \<Rightarrow> real \<Rightarrow> layer \<Rightarrow> layer" where
  "time_remap h st ci t actualFootageDuration startFrame endFrame lay =
     (if l_canSetTimeRemapEnabled lay \<and> \<not> l_timeRemapEnabled lay then
        (if \<bar>actualFootageDuration - layerDuration st startFrame endFrame\<bar> > 0.01 then
           (if rejects h (SetLayer ci t PTimeRemapEnabled) then lay
            else
              (case l_timeRemap lay of
                 None \<Rightarrow> lay\<lparr>l_timeRemapEnabled := True\<rparr>
               | Some keys \<Rightarrow>
                   (case removeKeys (rejects h (RemoveKey ci t)) keys of
                      (True, ks) \<Rightarrow> lay\<lparr>l_timeRemapEnabled := True, l_timeRemap := Some ks\<rparr>
                    | (False, ks) \<Rightarrow>
                        if rejects h (SetValueAtTime ci t (layerStartTime st startFrame)) then
                          lay\<lparr>l_timeRemapEnabled := True, l_timeRemap := Some ks\<rparr>
                        else if rejects h (SetValueAtTime ci t (layerEndTime st startFrame endFrame)) then
                          lay\<lparr>l_timeRemapEnabled := True,
                              l_timeRemap := Some (setValueAtTime (layerStartTime st startFrame) 0 ks)\<rparr>
                        else
                          lay\<lparr>l_timeRemapEnabled := True,
                              l_timeRemap :=
                                Some (setValueAtTime (layerEndTime st startFrame endFrame)
                                        actualFootageDuration
                                        (setValueAtTime (layerStartTime st startFrame) 0 ks))\<rparr>)))
         else lay)
      else lay)"

text \<open>
  The removal loops (lines 547--555, 629--634, 638--643) run from the last layer to the
  first and remove, inside a \<^verbatim>\<open>try\<close>, every layer that matches. \<open>target\<close> is the
  position of the layer that line 549 skips (\<^verbatim>\<open>other === targetLayer\<close>), \<open>None\<close> in the
  loops that skip nothing; it moves up by one when a layer above it is removed.
\<close>

fun remove_loop ::
  "host \<Rightarrow> nat \<Rightarrow> (layer \<Rightarrow> bool) \<Rightarrow> nat option \<Rightarrow> nat \<Rightarrow> layer list \<Rightarrow> nat option \<times> layer list" where
  "remove_loop h ci matches target 0 ls = (target, ls)"
| "remove_loop h ci matches target (Suc i) ls =
     (if target = Some i then remove_loop h ci matches target i ls
      else if matches (ls ! i) \<and> \<not> rejects h (RemoveLayer ci i) then
        remove_loop h ci matches
          (case target of None \<Rightarrow> None | Some t \<Rightarrow> if i < t then Some (t - 1) else Some t)
          i (remove_at i ls)
      else remove_loop h ci matches target i ls)"

text \<open>
  The layer that lines 447--470 make the target when the host accepts \<^verbatim>\<open>replaceSource\<close>,
  as it is before the run: the first source layer of the comp, or without one the layer
  that \<^verbatim>\<open>layers.add\<close> makes for the footage.
\<close>

definition remap_target :: "project \<Rightarrow> nat \<Rightarrow> nat \<Rightarrow> string \<Rightarrow> layer" where
  "remap_target proj precomp fi layerName =
     (case find (is_source_layer layerName) (layers_of proj precomp) of
        Some lay \<Rightarrow> lay
      | None \<Rightarrow> layer_of_item proj (SrcFootage fi))"

text \<open>\<^verbatim>\<open>try { targetLayer.name = layerName; } catch (e) {}\<close> (line 473).\<close>

definition set_name :: "host \<Rightarrow> nat \<Rightarrow> nat \<Rightarrow> string \<Rightarrow> layer \<Rightarrow> layer" where
  "set_name h ci t name lay = (if rejects h (SetLayer ci t PName) then lay else lay\<lparr>l_name := name\<rparr>)"

definition ensureSourceLayer ::
  "host \<Rightarrow> settings \<Rightarrow> nat \<Rightarrow> nat option \<Rightarrow> string \<Rightarrow> real \<Rightarrow> real \<Rightarrow> project
     \<Rightarrow> error + (nat option \<times> project)" where
  "ensureSourceLayer h st precomp footage layerName startFrame endFrame proj =
     (case bind_target h precomp proj footage layerName (layers_of proj precomp) of
        Inl e \<Rightarrow> Inl e
      | Inr None \<Rightarrow> Inr (None, proj)
      | Inr (Some (t, ls1)) \<Rightarrow>
          (case footage of
             None \<Rightarrow>
               (case remove_loop h precomp (is_source_layer layerName) (Some t) (length ls1) ls1 of
                  (t', ls') \<Rightarrow> Inr (t', set_layers precomp ls' proj))
           | Some fi \<Rightarrow>
               (let proj1 = interpret_footage h st fi proj in
                case set_timing h st precomp t startFrame endFrame
                       (set_name h precomp t layerName (ls1 ! t)) of
                  Inl e \<Rightarrow> Inl e
                | Inr lay \<Rightarrow>
                    (let ls2 = ls1[t := time_remap h st precomp t
                                          (item_duration proj1 (SrcFootage fi)) startFrame endFrame lay]
                     in case remove_loop h precomp (is_source_layer layerName) (Some t)
                               (length ls2) ls2 of
                          (t', ls') \<Rightarrow> Inr (t', set_layers precomp ls' proj1)))))"

section \<open>AEBridge\_Startup.jsx: one item of the configuration (lines 591--673)\<close>

definition preName :: "shot \<Rightarrow> string" where
  "preName it = ''[AEBridge]_'' @ s_name it"

definition missingName :: "shot \<Rightarrow> string" where
  "missingName it = s_name it @ '' (Missing)''"

definition sourceLayerName :: "shot \<Rightarrow> string" where
  "sourceLayerName it = ''[AEBridge]_Source_'' @ s_name it"

text \<open>Lines 597--625: the footage is conformed to the frame rate and read with straight alpha.\<close>

definition conform_footage :: "host \<Rightarrow> settings \<Rightarrow> nat \<Rightarrow> project \<Rightarrow> project" where
  "conform_footage h st fi proj =
     upd_footage fi
       (\<lambda>x. if rejects h (SetConformFrameRate fi) then x
            else if rejects h (SetAlphaMode fi) then x\<lparr>f_conformFrameRate := FRAME_RATE st\<rparr>
            else x\<lparr>f_conformFrameRate := FRAME_RATE st, f_alphaMode := Straight\<rparr>)
       proj"

text \<open>
  Lines 645--652: \<^verbatim>\<open>addSolid\<close> makes a solid footage item in the project and a layer on
  top of the comp that shows it; the two writes that follow are outside any \<^verbatim>\<open>try\<close>.
\<close>

definition solid_item :: "settings \<Rightarrow> string \<Rightarrow> footage" where
  "solid_item st name =
     \<lparr> f_name = name, f_mainSource = SolidSource, f_duration = DURATION st,
       f_conformFrameRate = 0, f_alphaMode = Straight \<rparr>"

definition solid_layer :: "settings \<Rightarrow> string \<Rightarrow> nat \<Rightarrow> layer" where
  "solid_layer st name i =
     \<lparr> l_name = name, l_source = Some (SrcFootage i), l_startTime = 0, l_inPoint = 0,
       l_outPoint = DURATION st, l_canSetTimeRemapEnabled = False, l_timeRemapEnabled = False,
       l_timeRemap = None \<rparr>"

definition add_placeholder ::
  "host \<Rightarrow> settings \<Rightarrow> nat \<Rightarrow> string \<Rightarrow> layer list \<Rightarrow> project \<Rightarrow> error + project" where
  "add_placeholder h st pre name ls proj =
     (if rejects h (AddSolid pre name) then Inr (set_layers pre ls proj)
      else if rejects h (SetLayer pre 0 PStartTime) then Inl (HostRejected ''startTime'')
      else if rejects h (SetLayer pre 0 POutPoint) then Inl (HostRejected ''outPoint'')
      else Inr (set_layers pre
                  ((solid_layer st name (length proj))\<lparr>l_startTime := 0, l_outPoint := DURATION st\<rparr> # ls)
                  proj
                @ [FootageItem (solid_item st name)]))"

text \<open>Lines 661--673: the comp of the item is nested into the main comp unless it is there.\<close>

definition shows_comp_named :: "project \<Rightarrow> string \<Rightarrow> layer \<Rightarrow> bool" where
  "shows_comp_named proj name lay \<longleftrightarrow>
     (case l_source lay of
        Some (SrcComp j) \<Rightarrow> item_name proj (SrcComp j) = name
      | Some (SrcFootage j) \<Rightarrow> False
      | None \<Rightarrow> False)"

definition nest_in_main ::
  "host \<Rightarrow> settings \<Rightarrow> nat \<Rightarrow> nat \<Rightarrow> string \<Rightarrow> project \<Rightarrow> error + project" where
  "nest_in_main h st mainComp pre name proj =
     (if list_ex (shows_comp_named proj name) (layers_of proj mainComp) then Inr proj
      else if rejects h (AddLayer mainComp (SrcComp pre)) then Inl (HostRejected ''layers.add'')
      else
        (let added = layer_of_item proj (SrcComp pre);
             a1 = set_name h mainComp 0 name added;
             a2 = (if rejects h (SetLayer mainComp 0 PStartTime) then a1
                   else if rejects h (SetLayer mainComp 0 POutPoint) then a1\<lparr>l_startTime := 0\<rparr>
                   else a1\<lparr>l_startTime := 0, l_outPoint := DURATION st\<rparr>)
         in Inr (set_layers mainComp (a2 # layers_of proj mainComp) proj)))"

text \<open>
  The body of the loop. An item whose \<^verbatim>\<open>first\<close> or \<^verbatim>\<open>last\<close> is not a number is
  outside the model from the point where the script reads them.
\<close>

definition process_item :: "host \<Rightarrow> settings \<Rightarrow> nat \<Rightarrow> shot \<Rightarrow> project \<Rightarrow> error + project" where
  "process_item h st mainComp it proj =
     (case ensureComp h st (preName it) proj of
        Inl e \<Rightarrow> Inl e
      | Inr (pre, proj1) \<Rightarrow>
          (case importOrUpdateSequence h (s_file it) (s_name it) proj1 of
             Inl e \<Rightarrow> Inl e
           | Inr (footage, proj2) \<Rightarrow>
               (let proj3 = (case footage of
                               None \<Rightarrow> proj2
                             | Some fi \<Rightarrow> conform_footage h st fi proj2);
                    ls1 = snd (remove_loop h pre (\<lambda>l. l_name l = missingName it) None
                                 (length (layers_of proj3 pre)) (layers_of proj3 pre))
                in case footage of
                     None \<Rightarrow>
                       add_placeholder h st pre (missingName it)
                         (snd (remove_loop h pre (\<lambda>l. l_name l = sourceLayerName it) None
                                 (length ls1) ls1))
                         proj3
                   | Some fi \<Rightarrow>
                       if \<not> s_numeric it then Inl IllTyped
                       else
                         (case ensureSourceLayer h st pre footage (sourceLayerName it)
                                 (s_first it) (s_last it) (set_layers pre ls1 proj3) of
                            Inl e \<Rightarrow> Inl e
                          | Inr (srcLayer, proj4) \<Rightarrow>
                              nest_in_main h st mainComp pre (preName it) proj4))))"

text \<open>
  Lines 569--674: before each item the cancel flag and the timeout are checked (the purge of
  the caches every ten items and the progress window do not touch the project).
\<close>

fun process_items ::
  "host \<Rightarrow> settings \<Rightarrow> nat \<Rightarrow> nat \<Rightarrow> shot list \<Rightarrow> project \<Rightarrow> error + project" where
  "process_items h st mainComp idx [] proj = Inr proj"
| "process_items h st mainComp idx (it # rest) proj =
     (if cancelled_before h idx then Inl UserCancelled
      else if timed_out_before h idx then Inl ScriptTimeout
      else case process_item h st mainComp it proj of
             Inl e \<Rightarrow> Inl e
           | Inr proj' \<Rightarrow> process_items h st mainComp (Suc idx) rest proj')"

text \<open>Lines 560--674: the reconciliation of the project with the configuration.\<close>

definition reconcile :: "host \<Rightarrow> settings \<Rightarrow> project \<Rightarrow> error + (nat \<times> project)" where
  "reconcile h st proj =
     (case ensureComp h st (COMP_NAME st) proj of
        Inl e \<Rightarrow> Inl e
      | Inr (mainComp, proj1) \<Rightarrow>
          (case process_items h st mainComp 0 (items st) proj1 of
             Inl e \<Rightarrow> Inl e
           | Inr proj2 \<Rightarrow> Inr (mainComp, proj2)))"

section \<open>The two scripts as a whole\<close>

text \<open>
  What a run leaves behind besides the project: the project operations of the host, the log
  files written and the alerts shown, in order. A run that ends in an exception is
  \<open>Aborted\<close> with the events up to its end; the project it leaves in memory is not
  described.
\<close>

datatype event =
    EvOpened "string option"
  | EvNewProject
  | EvFolderCreated "string option"
  | EvSaved "string option"
  | EvRendered
  | EvAlert string
  | EvErrorLog string
  | EvSuccessLog "string option" string

record app =
  project :: project
  open_file :: "string option"
  render_queue :: "(nat \<times> outmod) list"
  events :: "event list"

datatype outcome = Completed app | Aborted error "event list"

definition error_text :: "error \<Rightarrow> string" where
  "error_text e =
     (case e of
        Fatal m \<Rightarrow> m
      | HostRejected m \<Rightarrow> m
      | UserCancelled \<Rightarrow> ''User cancelled''
      | ScriptTimeout \<Rightarrow> ''Script timeout''
      | IllTyped \<Rightarrow> [])"

subsection \<open>AEBridge\_Startup.jsx (lines 159--742)\<close>

text \<open>
  The \<^verbatim>\<open>catch\<close> of lines 725--741: the error is logged, and shown in an alert unless it is
  the cancellation or the timeout.
\<close>

definition startup_failed :: "error \<Rightarrow> event list \<Rightarrow> outcome" where
  "startup_failed e evs =
     (if e = IllTyped then Aborted IllTyped evs
      else
        Aborted e
          (evs @ [EvErrorLog (error_text e)] @
           (if e = UserCancelled \<or> e = ScriptTimeout then [] else [EvAlert (error_text e)])))"

text \<open>Lines 181--187.\<close>

definition open_or_new :: "host \<Rightarrow> settings \<Rightarrow> app \<Rightarrow> error + app" where
  "open_or_new h st a =
     (if file_exists h (PROJECT_PATH st) then
        (if rejects h (OpenProject (PROJECT_PATH st)) then Inl (HostRejected ''open'')
         else Inr (a\<lparr>project := stored_project h (PROJECT_PATH st),
                     open_file := map_option (fsName h) (PROJECT_PATH st),
                     events := events a @ [EvOpened (PROJECT_PATH st)]\<rparr>))
      else if rejects h NewProject then Inl (HostRejected ''newProject'')
      else Inr (a\<lparr>project := [], open_file := None, events := events a @ [EvNewProject]\<rparr>))"

text \<open>Lines 678--681.\<close>

definition save_project :: "host \<Rightarrow> settings \<Rightarrow> app \<Rightarrow> error + app" where
  "save_project h st a =
     (if \<not> parent_exists h (PROJECT_PATH st) \<and> rejects h CreateFolder then
        Inl (HostRejected ''create'')
      else if rejects h (SaveProject (PROJECT_PATH st)) then Inl (HostRejected ''save'')
      else Inr (a\<lparr>open_file := map_option (fsName h) (PROJECT_PATH st),
                  events := events a
                    @ (if \<not> parent_exists h (PROJECT_PATH st)
                       then [EvFolderCreated (PROJECT_PATH st)] else [])
                    @ [EvSaved (PROJECT_PATH st)]\<rparr>))"

text \<open>
  Lines 685--709: the render of the startup script. The first template whose name contains
  \<^verbatim>\<open>exr\<close>, in any case, is applied.
\<close>

definition contains :: "string \<Rightarrow> string \<Rightarrow> bool" where
  "contains s sub = list_ex (\<lambda>i. take (length sub) (drop i s) = sub) [0..<Suc (length s)]"

definition startup_output :: "om_host \<Rightarrow> string \<Rightarrow> rctx \<Rightarrow> error + rctx" where
  "startup_output oh targetFile c =
     (case do_write oh (SetFile targetFile) c of
        Inl e \<Rightarrow> Inl e
      | Inr c1 \<Rightarrow>
          (let c2 = (if templates_unreadable oh then c1
                     else case find (\<lambda>t. contains (map lower t) ''exr'') (om_templates (om c1)) of
                            None \<Rightarrow> c1
                          | Some exrTemplate \<Rightarrow>
                              if om_rejects oh (ApplyTemplate exrTemplate) then c1
                              else try_write oh (SetFile targetFile)
                                     (om_write_ok (ApplyTemplate exrTemplate) c1));
               c3 = try_write oh (SetIncludeSourceXMP True) c2
           in do_write oh (SetFile targetFile) c3))"

definition startup_render :: "host \<Rightarrow> settings \<Rightarrow> nat \<Rightarrow> app \<Rightarrow> error + app" where
  "startup_render h st mainComp a =
     (if rejects h (AddRenderItem mainComp) then Inl (HostRejected ''renderQueue.items.add'')
      else
        (case startup_output (om_h h) (OUTPUT_PATH st)
                \<lparr> om = \<lparr> om_templates = host_templates h, om_writes = [] \<rparr>, shown = [] \<rparr> of
           Inl e \<Rightarrow> Inl e
         | Inr c \<Rightarrow>
             if rejects h RenderAll then Inl (HostRejected ''render'')
             else Inr (a\<lparr>render_queue := render_queue a @ [(mainComp, om c)],
                         events := events a @ [EvRendered]\<rparr>)))"

text \<open>
  The body of the \<^verbatim>\<open>try\<close> (lines 160--724). Lines 189--249 set the time display, the
  working space and the blending of the project, each inside a \<^verbatim>\<open>try\<close>; they touch no
  composition, footage or layer and are left out, as is the progress window.
\<close>

definition startup_body :: "host \<Rightarrow> settings \<Rightarrow> app \<Rightarrow> outcome" where
  "startup_body h st a =
     (case open_or_new h st a of
        Inl e \<Rightarrow> startup_failed e (events a)
      | Inr a1 \<Rightarrow>
          (case reconcile h st (project a1) of
             Inl e \<Rightarrow> startup_failed e (events a1)
           | Inr (mainComp, proj) \<Rightarrow>
               (case save_project h st (a1\<lparr>project := proj\<rparr>) of
                  Inl e \<Rightarrow> startup_failed e (events a1)
                | Inr a2 \<Rightarrow>
                    if SHOULD_RENDER st \<and> OUTPUT_PATH st \<noteq> [] then
                      (case startup_render h st mainComp a2 of
                         Inl e \<Rightarrow> startup_failed e (events a2)
                       | Inr a3 \<Rightarrow>
                           Completed (a3\<lparr>events := events a3 @
                             [EvSuccessLog (PROJECT_PATH st) (COMP_NAME st)]\<rparr>))
                    else
                      Completed (a2\<lparr>events := events a2 @
                        [EvSuccessLog (PROJECT_PATH st) (COMP_NAME st)]\<rparr>))))"

text \<open>The script from the parsed configuration on.\<close>

definition startup :: "host \<Rightarrow> config \<Rightarrow> app \<Rightarrow> outcome" where
  "startup h config a =
     (case settings_of (startup_vars_of config) of
        None \<Rightarrow> Aborted IllTyped (events a)
      | Some st \<Rightarrow> startup_body h st a)"

subsection \<open>AEBridge\_Render.jsx (lines 109--357)\<close>

record render_settings =
  r_projectPath :: string
  r_compName :: string
  r_frameRate :: real
  r_globalFirst :: real
  r_globalLast :: real
  r_outputPath :: string
  r_out :: out_params

definition render_settings_of :: "render_vars \<Rightarrow> render_settings option" where
  "render_settings_of v =
     (case (Option.bind (projectPath v) as_str, Option.bind (outputPath v) as_str,
            as_str (compName v), as_str (templateName v)) of
        (Some pp, Some outp, Some cn, Some tn) \<Rightarrow>
          (case (as_num (frameRate v), as_num (globalFirst v), as_num (globalLast v),
                 as_num (desiredQuality v)) of
             (Some fr, Some gf, Some gl, Some q) \<Rightarrow>
               Some \<lparr> r_projectPath = pp, r_compName = cn, r_frameRate = fr, r_globalFirst = gf,
                      r_globalLast = gl, r_outputPath = outp,
                      r_out = \<lparr> p_templateName = tn, p_globalFirst = gf,
                                p_channels = desiredChannels v, p_depth = desiredDepth v,
                                p_color = desiredColor v, p_quality = JNum q \<rparr> \<rparr>
           | _ \<Rightarrow> None)
      | _ \<Rightarrow> None)"

definition durationFrames :: "render_settings \<Rightarrow> real" where
  "durationFrames rs = max 0 (r_globalLast rs - r_globalFirst rs + 1)"

text \<open>\<^verbatim>\<open>alertAndStop\<close> outside the \<^verbatim>\<open>try\<close>: the message is logged and shown, the script ends.\<close>

definition alertAndStop :: "string \<Rightarrow> event list \<Rightarrow> outcome" where
  "alertAndStop msg evs = Aborted (Fatal msg) (evs @ [EvErrorLog msg, EvAlert msg])"

text \<open>The \<^verbatim>\<open>catch\<close> of lines 336--354 logs and shows whatever was thrown inside the \<^verbatim>\<open>try\<close>.\<close>

definition render_failed :: "error \<Rightarrow> event list \<Rightarrow> outcome" where
  "render_failed e evs =
     Aborted e
       (evs @ (case e of Fatal m \<Rightarrow> [EvErrorLog m, EvAlert m] | _ \<Rightarrow> [])
            @ [EvErrorLog (error_text e)]
            @ (if e = UserCancelled then [] else [EvAlert (error_text e)]))"

definition missing_fields_msg :: string where
  "missing_fields_msg =
     ''ERROR: Render config missing required fields (project_path / output_path).''"

text \<open>Lines 163--182.\<close>

definition render_comp_settings :: "host \<Rightarrow> render_settings \<Rightarrow> nat \<Rightarrow> comp \<Rightarrow> comp" where
  "render_comp_settings h rs ci mainComp =
     (let c1 = (if r_globalFirst rs \<noteq> 0 \<and> r_globalFirst rs \<noteq> 1 then
                  (if rejects h (SetComp ci PDisplayStartFrame) then
                     (if rejects h (SetComp ci PDisplayStartTime) then mainComp
                      else mainComp\<lparr>c_displayStartTime := (r_globalFirst rs - 1) / r_frameRate rs\<rparr>)
                   else mainComp\<lparr>c_displayStartFrame := r_globalFirst rs\<rparr>)
                else mainComp);
          c2 = (if rejects h (SetComp ci PFrameRate) then c1 else c1\<lparr>c_frameRate := r_frameRate rs\<rparr>);
          c3 = (if rejects h (SetComp ci PDuration) then c2
                else c2\<lparr>c_duration := durationFrames rs / r_frameRate rs\<rparr>)
      in c3)"

text \<open>Lines 193--198.\<close>

fun remove_render_items :: "host \<Rightarrow> nat \<Rightarrow> nat \<Rightarrow> (nat \<times> outmod) list \<Rightarrow> (nat \<times> outmod) list" where
  "remove_render_items h ci 0 rq = rq"
| "remove_render_items h ci (Suc i) rq =
     (if fst (rq ! i) = ci \<and> \<not> rejects h (RemoveRenderItem i) then
        remove_render_items h ci i (remove_at i rq)
      else remove_render_items h ci i rq)"

text \<open>
  The body of the \<^verbatim>\<open>try\<close> (lines 136--334). The flags \<^verbatim>\<open>exitAfterLaunchAndEval\<close> and
  \<^verbatim>\<open>queueInAME\<close>, the time span of the render item and the progress window are left
  out; the warnings shown before a failure of the output stage are not listed among the
  events.
\<close>

definition render_body :: "host \<Rightarrow> render_settings \<Rightarrow> app \<Rightarrow> outcome" where
  "render_body h rs a =
     (let needs_open = (open_file a \<noteq> Some (fsName h (r_projectPath rs))) in
      if needs_open \<and> rejects h (OpenProject (Some (r_projectPath rs))) then
        render_failed (HostRejected ''open'') (events a)
      else
        (let a1 = (if needs_open then
                     a\<lparr>project := stored_project h (Some (r_projectPath rs)),
                       open_file := Some (fsName h (r_projectPath rs)),
                       events := events a @ [EvOpened (Some (r_projectPath rs))]\<rparr>
                   else a)
         in case findCompByName (project a1) (r_compName rs) of
              None \<Rightarrow>
                render_failed
                  (Fatal (''ERROR: Composition \"'' @ r_compName rs @ ''\" not found in project.''))
                  (events a1)
            | Some ci \<Rightarrow>
                (let proj = upd_comp ci (render_comp_settings h rs ci) (project a1);
                     rq = remove_render_items h ci (length (render_queue a1)) (render_queue a1)
                 in if rejects h (AddRenderItem ci) then
                      render_failed (HostRejected ''renderQueue.items.add'') (events a1)
                    else if \<not> parent_exists h (Some (r_outputPath rs)) \<and> rejects h CreateFolder then
                      render_failed (Fatal ''ERROR: Cannot create output directory'') (events a1)
                    else
                      (let evs = events a1 @
                             (if \<not> parent_exists h (Some (r_outputPath rs))
                              then [EvFolderCreated (Some (r_outputPath rs))] else [])
                       in case output_stage (om_h h) (r_out rs) (r_outputPath rs)
                                 \<lparr> om = \<lparr> om_templates = host_templates h, om_writes = [] \<rparr>,
                                   shown = [] \<rparr> of
                            Inl e \<Rightarrow> render_failed e evs
                          | Inr c \<Rightarrow>
                              if rejects h RenderAll then
                                render_failed (HostRejected ''render'') (evs @ map EvAlert (shown c))
                              else
                                Completed
                                  \<lparr> project = proj, open_file = open_file a1,
                                    render_queue = rq @ [(ci, om c)],
                                    events = evs @ map EvAlert (shown c) @ [EvRendered]
                                      @ [EvSuccessLog (Some (r_outputPath rs)) (r_compName rs)] \<rparr>))))"

text \<open>The script from the parsed configuration on (lines 109--357).\<close>

definition render_script :: "host \<Rightarrow> config \<Rightarrow> app \<Rightarrow> outcome" where
  "render_script h cfg a =
     (if render_required_missing (render_vars_of cfg) then alertAndStop missing_fields_msg (events a)
      else case render_settings_of (render_vars_of cfg) of
             None \<Rightarrow> Aborted IllTyped (events a)
           | Some rs \<Rightarrow>
               if \<not> file_exists h (Some (r_projectPath rs)) then
                 alertAndStop (''ERROR: AE project file not found: '' @ r_projectPath rs) (events a)
               else render_body h rs a)"

text \<open>A host that accepts every call, finds no file and cancels nothing.\<close>

definition host_ok :: host where
  "host_ok =
     \<lparr> rejects = (\<lambda>x. False), file_exists = (\<lambda>x. False), parent_exists = (\<lambda>x. True),
       fsName = (\<lambda>x. x), media_name = (\<lambda>x. x), media_duration = (\<lambda>x. 0),
       guessed_alpha = (\<lambda>x. Straight), stored_project = (\<lambda>x. []),
       cancelled_before = (\<lambda>x. False), timed_out_before = (\<lambda>x. False),
       host_templates = [], om_h = om_host_ok \<rparr>"

section \<open>Concrete inputs used by the examples\<close>

definition ex_ctx :: rctx where
  "ex_ctx = \<lparr> om = \<lparr> om_templates = [''PNG Sequence''], om_writes = [] \<rparr>, shown = [] \<rparr>"

definition ex_params :: out_params where
  "ex_params =
     \<lparr> p_templateName = ''Studio EXR'', p_globalFirst = 1001,
       p_channels = JStr ''RGB + Alpha'', p_depth = JStr ''16 Bits/Channel'',
       p_color = JStr ''Straight (Unmatted)'', p_quality = JNum 100 \<rparr>"

definition ex_file :: string where
  "ex_file = ''/out/shot_[#####].png''"

definition ex_final_writes :: "om_write list" where
  "ex_final_writes =
     [ApplyTemplate ''PNG Sequence'', SetFile ex_file,
      SetSetting ''Output Module Settings'' ''Start Numbering'' (JNum 1001),
      SetIncludeSourceXMP True, SetFile ex_file]"

text \<open>
  One shot, frames 1001 to 1100 at 24 frames per second, in a composition of the same
  range.
\<close>

definition ex_shot :: shot where
  "ex_shot =
     \<lparr> s_name = ''beauty'', s_file = Some ''/x/beauty.0001.exr'', s_first = 1001,
       s_last = 1100, s_numeric = True \<rparr>"

definition ex_settings :: settings where
  "ex_settings =
     \<lparr> FRAME_RATE = 24, GLOBAL_FIRST = 1001, GLOBAL_LAST = 1100, COMP_NAME = ''AEBridge'',
       COMP_WIDTH = 1920, COMP_HEIGHT = 1080, items = [ex_shot],
       PROJECT_PATH = Some ''/p/shot.aep'', OUTPUT_PATH = [], SHOULD_RENDER = False \<rparr>"

text \<open>The same configuration with the shot ending at frame 1080.\<close>

definition ex_settings_short :: settings where
  "ex_settings_short = ex_settings\<lparr>items := [ex_shot\<lparr>s_last := 1080\<rparr>]\<rparr>"

definition ex_render_settings :: render_settings where
  "ex_render_settings =
     \<lparr> r_projectPath = ''/p/shot.aep'', r_compName = ''AEBridge'', r_frameRate = 24,
       r_globalFirst = 1001, r_globalLast = 1100, r_outputPath = ex_file, r_out = ex_params \<rparr>"

text \<open>A configuration file without \<^verbatim>\<open>project_path\<close>.\<close>

definition ex_config_no_path :: config where
  "ex_config_no_path = [''global_first'' \<mapsto> JNum 1001, ''global_last'' \<mapsto> JNum 1100]"

text \<open>A configuration whose item has no \<^verbatim>\<open>first\<close> and no \<^verbatim>\<open>last\<close>.\<close>

definition ex_config_no_range :: config where
  "ex_config_no_range =
     [''global_first'' \<mapsto> JNum 1001, ''global_last'' \<mapsto> JNum 1100,
      ''items'' \<mapsto> JArr [JObj [(''name'', JStr ''beauty''), (''path'', JStr ''/x/beauty.0001.exr'')]]]"

definition ex_app :: app where
  "ex_app = \<lparr> project = [], open_file = None, render_queue = [], events = [] \<rparr>"

text \<open>
  Hosts: one where the file of the shot exists and holds two seconds of media; one that
  also rejects its import; one without the setter \<^verbatim>\<open>displayStartFrame\<close>; one that
  rejects \<^verbatim>\<open>addSolid\<close>. In \<open>host_ok\<close> the file of the shot does not exist.
\<close>

definition host_media :: host where
  "host_media =
     host_ok\<lparr>file_exists := (\<lambda>x. x = Some ''/x/beauty.0001.exr''),
             media_duration := (\<lambda>x. 2)\<rparr>"

definition host_import_fails :: host where
  "host_import_fails = host_media\<lparr>rejects := (\<lambda>op. op = ImportFile ''/x/beauty.0001.exr'')\<rparr>"

definition host_no_frame_setter :: host where
  "host_no_frame_setter =
     host_ok\<lparr>rejects := (\<lambda>op. case op of SetComp i PDisplayStartFrame \<Rightarrow> True | _ \<Rightarrow> False)\<rparr>"

definition host_no_solid :: host where
  "host_no_solid = host_ok\<lparr>rejects := (\<lambda>op. case op of AddSolid c n \<Rightarrow> True | _ \<Rightarrow> False)\<rparr>"

text \<open>The project graphs that the runs on these inputs produce.\<close>

definition ex_main :: comp where
  "ex_main =
     \<lparr> c_name = ''AEBridge'', c_width = 1920, c_height = 1080, c_duration = 25 / 6,
       c_frameRate = 24, c_displayStartFrame = 1001, c_displayStartTime = 0,
       c_workAreaStart = 0, c_workAreaDuration = 25 / 6, c_layers = [] \<rparr>"

definition ex_child :: "layer list \<Rightarrow> comp" where
  "ex_child ls = ex_main\<lparr>c_name := ''[AEBridge]_beauty'', c_layers := ls\<rparr>"

definition ex_placeholder :: "nat \<Rightarrow> layer" where
  "ex_placeholder i =
     \<lparr> l_name = ''beauty (Missing)'', l_source = Some (SrcFootage i), l_startTime = 0,
       l_inPoint = 0, l_outPoint = 25 / 6, l_canSetTimeRemapEnabled = False,
       l_timeRemapEnabled = False, l_timeRemap = None \<rparr>"

definition ex_solid :: footage where
  "ex_solid =
     \<lparr> f_name = ''beauty (Missing)'', f_mainSource = SolidSource, f_duration = 25 / 6,
       f_conformFrameRate = 0, f_alphaMode = Straight \<rparr>"

definition ex_once :: project where
  "ex_once = [CompItem ex_main, CompItem (ex_child [ex_placeholder 2]), FootageItem ex_solid]"

definition ex_twice :: project where
  "ex_twice =
     [CompItem ex_main, CompItem (ex_child [ex_placeholder 3]), FootageItem ex_solid,
      FootageItem ex_solid]"

definition ex_nested :: layer where
  "ex_nested =
     \<lparr> l_name = ''[AEBridge]_beauty'', l_source = Some (SrcComp 1), l_startTime = 0,
       l_inPoint = 0, l_outPoint = 25 / 6, l_canSetTimeRemapEnabled = True,
       l_timeRemapEnabled = False, l_timeRemap = Some [] \<rparr>"

definition ex_source_layer :: "real \<Rightarrow> layer" where
  "ex_source_layer out =
     \<lparr> l_name = ''[AEBridge]_Source_beauty'', l_source = Some (SrcFootage 2), l_startTime = 0,
       l_inPoint = 0, l_outPoint = out, l_canSetTimeRemapEnabled = True,
       l_timeRemapEnabled = True, l_timeRemap = Some [(0, 0), (25 / 6, 2)] \<rparr>"

definition ex_footage :: "real \<Rightarrow> footage" where
  "ex_footage conform =
     \<lparr> f_name = ''/x/beauty.0001.exr'', f_mainSource = FileSource ''/x/beauty.0001.exr'' False,
       f_duration = 2, f_conformFrameRate = conform, f_alphaMode = Straight \<rparr>"

definition ex_resolved :: "real \<Rightarrow> project" where
  "ex_resolved out =
     [CompItem (ex_main\<lparr>c_layers := [ex_nested]\<rparr>), CompItem (ex_child [ex_source_layer out]),
      FootageItem (ex_footage 24)]"

section \<open>Output configuration\<close>

lemma first_template_none: "name \<notin> set ts \<Longrightarrow> first_template ts [name] = None"
  by (induction ts) auto

lemma applyTemplateByNames_writes:
  "applyTemplateByNames h names c = (r, c') \<Longrightarrow>
     shown c' = shown c \<and> (\<exists>ws. om_writes (om c') = om_writes (om c) @ ws)"
  by (auto simp: applyTemplateByNames_def om_write_ok_def split: if_splits option.splits)

lemma try_write_writes:
  "shown (try_write h w c) = shown c \<and>
   (\<exists>ws. om_writes (om (try_write h w c)) = om_writes (om c) @ ws)"
  by (simp add: try_write_def om_write_ok_def)

lemma set_start_numbering_writes:
  "\<exists>ws. om_writes (om (set_start_numbering h gf c)) = om_writes (om c) @ ws"
  by (simp add: set_start_numbering_def try_write_def om_write_ok_def)

lemma do_write_writes:
  "do_write h w c = Inr c' \<Longrightarrow> om_writes (om c') = om_writes (om c) @ [w]"
  by (auto simp: do_write_def om_write_ok_def split: if_splits)

lemma png_steps_writes:
  assumes "png_steps h p outfile c = Inr (b, c')"
  shows "\<exists>ws. om_writes (om c') = om_writes (om c) @ ws"
proof -
  define c2 where "c2 = try_write h (SetSetting ''Output Module Settings'' ''Channels'' (p_channels p)) c"
  define c3 where "c3 = try_write h (SetSetting ''Output Module Settings'' ''Depth'' (p_depth p)) c2"
  define c4 where "c4 = try_write h (SetSetting ''Output Module Settings'' ''Color'' (p_color p)) c3"
  define c5 where "c5 = try_write h (SetSetting ''PNG Options'' ''Quality'' (p_quality p)) c4"
  define c6 where "c6 = try_write h (SetSetting ''Format Options'' ''Quality'' (p_quality p)) c5"
  define c7 where "c7 = set_start_numbering h (p_globalFirst p) c6"
  from assms have w: "do_write h (SetFile outfile) c7 = Inr c'"
    by (auto simp: png_steps_def Let_def c2_def c3_def c4_def c5_def c6_def c7_def
        split: sum.splits)
  obtain w2 where "om_writes (om c2) = om_writes (om c) @ w2"
    unfolding c2_def using try_write_writes by blast
  moreover obtain w3 where "om_writes (om c3) = om_writes (om c2) @ w3"
    unfolding c3_def using try_write_writes by blast
  moreover obtain w4 where "om_writes (om c4) = om_writes (om c3) @ w4"
    unfolding c4_def using try_write_writes by blast
  moreover obtain w5 where "om_writes (om c5) = om_writes (om c4) @ w5"
    unfolding c5_def using try_write_writes by blast
  moreover obtain w6 where "om_writes (om c6) = om_writes (om c5) @ w6"
    unfolding c6_def using try_write_writes by blast
  moreover obtain w7 where "om_writes (om c7) = om_writes (om c6) @ w7"
    unfolding c7_def using set_start_numbering_writes by blast
  moreover have "om_writes (om c') = om_writes (om c7) @ [SetFile outfile]"
    using do_write_writes[OF w] .
  ultimately show ?thesis by simp
qed

lemma configurePNGDefault_writes:
  assumes "configurePNGDefault h p outfile c = Inr (b, c')"
  shows "\<exists>ws. om_writes (om c') = om_writes (om c) @ ws"
proof -
  obtain a c0 where a: "applyTemplateByNames h default_templates c = (a, c0)" by fastforce
  then obtain w0 where w0: "om_writes (om c0) = om_writes (om c) @ w0"
    using applyTemplateByNames_writes by blast
  show ?thesis
  proof (cases "not_applied a")
    case False
    with assms a have "png_steps h p outfile c0 = Inr (b, c')"
      by (simp add: configurePNGDefault_def)
    from png_steps_writes[OF this] w0 show ?thesis by auto
  next
    case True
    note na = this
    show ?thesis
    proof (cases "om_rejects h (SetSetting ''Output Module Settings'' ''Format'' (JStr ''PNG Sequence''))")
      case True
      with assms a na show ?thesis using w0
        by (auto simp: configurePNGDefault_def)
    next
      case False
      with assms a na have
        "png_steps h p outfile
           (om_write_ok (SetSetting ''Output Module Settings'' ''Format'' (JStr ''PNG Sequence'')) c0)
         = Inr (b, c')"
        by (simp add: configurePNGDefault_def)
      from png_steps_writes[OF this] w0 show ?thesis by (auto simp: om_write_ok_def)
    qed
  qed
qed

lemma configureWithTemplate_writes:
  assumes "configureWithTemplate h outfile name c = Inr (b, c')"
  shows "\<exists>ws. om_writes (om c') = om_writes (om c) @ ws"
proof -
  obtain a c1 where a: "applyTemplateByNames h [name] c = (a, c1)" by fastforce
  then obtain w1 where w1: "om_writes (om c1) = om_writes (om c) @ w1"
    using applyTemplateByNames_writes by blast
  from assms a w1 show ?thesis
    by (auto simp: configureWithTemplate_def dest!: do_write_writes split: if_splits sum.splits)
qed

lemma configureOutputModule_writes:
  assumes "configureOutputModule h p outfile c = Inr (b, c')"
  shows "\<exists>ws. om_writes (om c') = om_writes (om c) @ ws"
proof (cases "p_templateName p \<noteq> []")
  case False
  with assms show ?thesis by (simp add: configureOutputModule_def configurePNGDefault_writes)
next
  case True
  with assms obtain s c1 where
    t: "configureWithTemplate h outfile (p_templateName p) c = Inr (s, c1)" and
    r: "c' = (if s then set_start_numbering h (p_globalFirst p) c1 else c1)"
    by (auto simp: configureOutputModule_def split: sum.splits if_splits)
  from configureWithTemplate_writes[OF t] obtain w1 where
    "om_writes (om c1) = om_writes (om c) @ w1" by blast
  moreover obtain w2 where
    "om_writes (om (set_start_numbering h (p_globalFirst p) c1)) = om_writes (om c1) @ w2"
    using set_start_numbering_writes by blast
  ultimately show ?thesis using r by auto
qed

text \<open>
  C2, as amended. A non-empty template name that is not among the templates of the output
  module makes \<open>configureOutputModule\<close> show the warning and return failure at once: nothing
  is written to the output module, the fallback \<open>configurePNGDefault\<close> is not tried, and
  the caller stops with the fatal error.
\<close>

theorem template_not_found_is_failure:
  assumes "p_templateName p \<noteq> []"
    and "p_templateName p \<notin> set (om_templates (om c))"
  shows "configureOutputModule h p outfile c =
           Inr (False, c\<lparr>shown := shown c @
                  [''WARNING: Output template not found: '' @ p_templateName p]\<rparr>)
         \<and> output_stage h p outfile c = Inl (Fatal cannot_configure_msg)"
proof -
  have "first_template (om_templates (om c)) [p_templateName p] = None"
    using assms(2) by (rule first_template_none)
  then have "applyTemplateByNames h [p_templateName p] c = (None, c)"
    by (simp add: applyTemplateByNames_def)
  then have "configureOutputModule h p outfile c =
           Inr (False, c\<lparr>shown := shown c @
                  [''WARNING: Output template not found: '' @ p_templateName p]\<rparr>)"
    using assms(1) by (simp add: configureOutputModule_def configureWithTemplate_def not_applied_def)
  then show ?thesis by (simp add: output_stage_def)
qed

theorem template_not_found_is_failure_witness:
  "p_templateName ex_params \<noteq> [] \<and> p_templateName ex_params \<notin> set (om_templates (om ex_ctx))
   \<and> configureOutputModule om_host_ok ex_params ex_file ex_ctx =
       Inr (False, ex_ctx\<lparr>shown := [''WARNING: Output template not found: Studio EXR'']\<rparr>)
   \<and> output_stage om_host_ok ex_params ex_file ex_ctx = Inl (Fatal cannot_configure_msg)"
proof -
  have a: "p_templateName ex_params \<noteq> []" by (simp add: ex_params_def)
  have b: "p_templateName ex_params \<notin> set (om_templates (om ex_ctx))"
    by (simp add: ex_params_def ex_ctx_def)
  show ?thesis
    using a b template_not_found_is_failure [OF a b, of om_host_ok ex_file]
    by (simp add: ex_params_def ex_ctx_def)
qed

text \<open>
  C2, as stated, fails: with the template name \<open>Studio EXR\<close> and an output module that
  offers only \<open>PNG Sequence\<close>, the fallback path would succeed, but
  \<open>configureOutputModule\<close> does not take it and the run stops.
\<close>

theorem template_not_found_counterexample:
  "p_templateName ex_params \<noteq> [] \<and> p_templateName ex_params \<notin> set (om_templates (om ex_ctx))
   \<and> configurePNGDefault om_host_ok ex_params ex_file
        (ex_ctx\<lparr>shown := [''WARNING: Output template not found: Studio EXR'']\<rparr>)
      = Inr (True, \<lparr> om = \<lparr> om_templates = [''PNG Sequence''],
               om_writes =
                 [ApplyTemplate ''PNG Sequence'',
                  SetSetting ''Output Module Settings'' ''Channels'' (JStr ''RGB + Alpha''),
                  SetSetting ''Output Module Settings'' ''Depth'' (JStr ''16 Bits/Channel''),
                  SetSetting ''Output Module Settings'' ''Color'' (JStr ''Straight (Unmatted)''),
                  SetSetting ''PNG Options'' ''Quality'' (JNum 100),
                  SetSetting ''Format Options'' ''Quality'' (JNum 100),
                  SetSetting ''Output Module Settings'' ''Start Numbering'' (JNum 1001),
                  SetFile ex_file] \<rparr>,
             shown = [''WARNING: Output template not found: Studio EXR''] \<rparr>)
   \<and> configureOutputModule om_host_ok ex_params ex_file ex_ctx =
       Inr (False, ex_ctx\<lparr>shown := [''WARNING: Output template not found: Studio EXR'']\<rparr>)
   \<and> output_stage om_host_ok ex_params ex_file ex_ctx = Inl (Fatal cannot_configure_msg)"
  by (simp add: configureOutputModule_def configureWithTemplate_def configurePNGDefault_def
      applyTemplateByNames_def default_templates_def png_steps_def output_stage_def
      om_host_ok_def ex_params_def ex_ctx_def not_applied_def do_write_def try_write_def
      om_write_ok_def set_start_numbering_def)

text \<open>
  C7. In every run of the output stage that succeeds, on the template path and on the
  fallback path, the writes made to the output module end with the assignment of the
  destination file: every template application and every settings write of the run comes
  before that last assignment and none follows it.
\<close>

theorem output_stage_file_is_final_write:
  assumes "output_stage h p outfile c = Inr c'"
  shows "\<exists>earlier. om_writes (om c') = om_writes (om c) @ earlier @ [SetFile outfile]"
proof -
  from assms obtain c1 where cfg: "configureOutputModule h p outfile c = Inr (True, c1)"
    and fin: "do_write h (SetFile outfile) (try_write h (SetIncludeSourceXMP True) c1) = Inr c'"
    by (auto simp: output_stage_def split: sum.splits if_splits)
  from configureOutputModule_writes[OF cfg] obtain w1 where
    "om_writes (om c1) = om_writes (om c) @ w1" by blast
  moreover obtain w2 where
    "om_writes (om (try_write h (SetIncludeSourceXMP True) c1)) = om_writes (om c1) @ w2"
    using try_write_writes by blast
  moreover note do_write_writes[OF fin]
  ultimately show ?thesis by simp
qed

theorem output_stage_file_is_final_write_witness:
  "output_stage om_host_ok (ex_params\<lparr>p_templateName := ''PNG Sequence''\<rparr>) ex_file ex_ctx
     = Inr (ex_ctx\<lparr>om := (om ex_ctx)\<lparr>om_writes := ex_final_writes\<rparr>\<rparr>)
   \<and> (\<exists>earlier. ex_final_writes = om_writes (om ex_ctx) @ earlier @ [SetFile ex_file])"
proof -
  have run: "output_stage om_host_ok (ex_params\<lparr>p_templateName := ''PNG Sequence''\<rparr>) ex_file ex_ctx
     = Inr (ex_ctx\<lparr>om := (om ex_ctx)\<lparr>om_writes := ex_final_writes\<rparr>\<rparr>)"
    by (simp add: output_stage_def configureOutputModule_def configureWithTemplate_def
        applyTemplateByNames_def om_host_ok_def ex_params_def ex_ctx_def not_applied_def
        do_write_def try_write_def om_write_ok_def set_start_numbering_def ex_final_writes_def)
  from output_stage_file_is_final_write [OF run] run show ?thesis by simp
qed

section \<open>Defaults of the configuration\<close>

lemma js_or_falsy: "\<not> truthy (Some v) \<Longrightarrow> js_or (Some v) d = d"
  by (simp add: js_or_def)

lemma js_or_absent: "js_or None d = d"
  by (simp add: js_or_def)

text \<open>
  C10, as amended. A top-level field that is present with a falsy value (\<open>0\<close>, the empty
  string, \<open>false\<close>, \<open>null\<close>) gives every variable of the startup script the value
  it has when the field is absent, and the startup script runs as it does without the
  field, for every field but \<open>project_path\<close>, which has no default and is passed on as
  it is. The render-only script runs as it does without the field, for every field: its
  variables are those of the absent field for every field but \<open>project_path\<close> and
  \<open>output_path\<close>, and for these two a falsy value fails the required-field check
  exactly as an absent one does. A falsy \<open>global_first\<close> becomes 1 in the startup
  script and 0 in the render-only script.
\<close>

theorem falsy_field_reads_as_absent:
  assumes "\<not> truthy (Some v)"
  shows "(k \<noteq> ''project_path'' \<longrightarrow>
            startup_vars_of (cfg(k \<mapsto> v)) = startup_vars_of (cfg(k := None))
            \<and> startup h (cfg(k \<mapsto> v)) a = startup h (cfg(k := None)) a)
       \<and> (k \<noteq> ''project_path'' \<and> k \<noteq> ''output_path'' \<longrightarrow>
            render_vars_of (cfg(k \<mapsto> v)) = render_vars_of (cfg(k := None)))
       \<and> (k = ''project_path'' \<or> k = ''output_path'' \<longrightarrow>
            render_required_missing (render_vars_of (cfg(k \<mapsto> v))) \<and>
            render_required_missing (render_vars_of (cfg(k := None))))
       \<and> render_script h (cfg(k \<mapsto> v)) a = render_script h (cfg(k := None)) a
       \<and> raw_GLOBAL_FIRST (startup_vars_of (cfg(''global_first'' \<mapsto> v))) = JNum 1
       \<and> globalFirst (render_vars_of (cfg(''global_first'' \<mapsto> v))) = JNum 0"
proof -
  have sv: "k \<noteq> ''project_path'' \<Longrightarrow>
            startup_vars_of (cfg(k \<mapsto> v)) = startup_vars_of (cfg(k := None))"
    using assms by (auto simp: startup_vars_of_def js_or_falsy js_or_absent)
  have rv: "k \<noteq> ''project_path'' \<and> k \<noteq> ''output_path'' \<Longrightarrow>
            render_vars_of (cfg(k \<mapsto> v)) = render_vars_of (cfg(k := None))"
    using assms by (auto simp: render_vars_of_def js_or_falsy js_or_absent Let_def)
  have rm: "k = ''project_path'' \<or> k = ''output_path'' \<Longrightarrow>
            render_required_missing (render_vars_of (cfg(k \<mapsto> v))) \<and>
            render_required_missing (render_vars_of (cfg(k := None)))"
    using assms by (auto simp: render_vars_of_def render_required_missing_def Let_def)
  have rs: "render_script h (cfg(k \<mapsto> v)) a = render_script h (cfg(k := None)) a"
  proof (cases "k = ''project_path'' \<or> k = ''output_path''")
    case True
    from rm[OF this] show ?thesis by (simp add: render_script_def)
  next
    case False
    then have "render_vars_of (cfg(k \<mapsto> v)) = render_vars_of (cfg(k := None))" using rv by simp
    then show ?thesis by (simp add: render_script_def)
  qed
  have gf: "raw_GLOBAL_FIRST (startup_vars_of (cfg(''global_first'' \<mapsto> v))) = JNum 1
       \<and> globalFirst (render_vars_of (cfg(''global_first'' \<mapsto> v))) = JNum 0"
    using assms by (simp add: startup_vars_of_def render_vars_of_def js_or_falsy Let_def)
  show ?thesis using sv rv rm rs gf by (simp add: startup_def)
qed

theorem falsy_field_reads_as_absent_witness:
  "\<not> truthy (Some (JNum 0))
   \<and> startup_vars_of (Map.empty(''global_first'' \<mapsto> JNum 0)) = startup_vars_of Map.empty
   \<and> startup host_ok (Map.empty(''global_first'' \<mapsto> JNum 0)) ex_app = startup host_ok Map.empty ex_app
   \<and> render_vars_of (Map.empty(''global_first'' \<mapsto> JNum 0)) = render_vars_of Map.empty
   \<and> render_script host_ok (Map.empty(''global_first'' \<mapsto> JNum 0)) ex_app
       = render_script host_ok Map.empty ex_app
   \<and> raw_GLOBAL_FIRST (startup_vars_of (Map.empty(''global_first'' \<mapsto> JNum 0))) = JNum 1
   \<and> globalFirst (render_vars_of (Map.empty(''global_first'' \<mapsto> JNum 0))) = JNum 0"
proof -
  have f: "\<not> truthy (Some (JNum 0))" by simp
  show ?thesis
    using f falsy_field_reads_as_absent [OF f, of "''global_first''" "Map.empty" host_ok ex_app]
    by auto
qed

text \<open>
  C10, as stated, fails for \<open>project_path\<close> in the startup script: the empty string is
  not replaced and does not read as an absent field. The run with
  \<^verbatim>\<open>project_path: ""\<close> saves to the file of the empty path and logs it, the run
  without the field saves to \<^verbatim>\<open>new File(undefined)\<close>.
\<close>

theorem falsy_project_path_counterexample:
  "\<not> truthy (Some (JStr []))
   \<and> raw_PROJECT_PATH (startup_vars_of (Map.empty(''project_path'' \<mapsto> JStr []))) = Some (JStr [])
   \<and> raw_PROJECT_PATH (startup_vars_of Map.empty) = None
   \<and> startup host_ok (Map.empty(''project_path'' \<mapsto> JStr [])) ex_app =
       Completed \<lparr> project = [CompItem (ex_main\<lparr>c_displayStartFrame := 1\<rparr>)], open_file = Some [],
                   render_queue = [],
                   events = [EvNewProject, EvSaved (Some []), EvSuccessLog (Some []) ''AEBridge''] \<rparr>
   \<and> startup host_ok Map.empty ex_app =
       Completed \<lparr> project = [CompItem (ex_main\<lparr>c_displayStartFrame := 1\<rparr>)], open_file = None,
                   render_queue = [],
                   events = [EvNewProject, EvSaved None, EvSuccessLog None ''AEBridge''] \<rparr>"
  by (simp add: startup_def startup_body_def settings_of_def startup_vars_of_def js_or_def
      open_or_new_def save_project_def startup_failed_def error_text_def reconcile_def
      ensureComp_def findCompByName_def is_comp_named_def syncCompSettings_def
      new_comp_def DURATION_def upd_comp_def Let_def importOrUpdateSequence_def
      findFootageByFirstFile_def findFootageByName_def has_file_def is_footage_named_def
      is_sequence_named_def reload_def file_of_item_def swap_source_def imported_def
      upd_footage_def process_item_def preName_def missingName_def sourceLayerName_def
      conform_footage_def add_placeholder_def solid_item_def solid_layer_def
      ensureSourceLayer_def bind_target_def is_source_layer_def interpret_footage_def
      set_timing_def set_name_def time_remap_def layerStartTime_def layerDuration_def
      layerEndTime_def nest_in_main_def shows_comp_named_def layer_of_item_def
      item_name_def item_duration_def item_can_remap_def layers_of_def set_layers_def
      remove_at_def host_ok_def ex_app_def ex_main_def)

section \<open>Lemmas on the removal loops and the graph\<close>

lemma first_index_Some: "first_index P xs = Some i \<Longrightarrow> i < length xs \<and> P (xs ! i)"
  by (induction xs arbitrary: i) (auto split: if_splits)

lemma length_remove_at: "i < length xs \<Longrightarrow> length (remove_at i xs) = length xs - 1"
  by (simp add: remove_at_def)

lemma nth_remove_at:
  "i < length xs \<Longrightarrow> j < length xs - 1 \<Longrightarrow> remove_at i xs ! j = (if j < i then xs ! j else xs ! Suc j)"
  by (auto simp: remove_at_def nth_append min_def)

lemma set_remove_at: "set (remove_at i xs) \<subseteq> set xs"
  by (auto simp: remove_at_def dest: in_set_takeD in_set_dropD)

lemma drop_remove_at: "i < length xs \<Longrightarrow> drop i (remove_at i xs) = drop (Suc i) xs"
  by (simp add: remove_at_def)

lemma remove_loop_target:
  "t < length ls \<Longrightarrow> n \<le> length ls \<Longrightarrow> remove_loop h ci m (Some t) n ls = (r, ls') \<Longrightarrow>
     \<exists>t'. r = Some t' \<and> t' < length ls' \<and> ls' ! t' = ls ! t"
proof (induction n arbitrary: t ls)
  case 0
  then show ?case by auto
next
  case (Suc i)
  then have i: "i < length ls" by simp
  show ?case
  proof (cases "t = i")
    case True
    with Suc.prems have "remove_loop h ci m (Some t) i ls = (r, ls')" by simp
    from Suc.IH[OF Suc.prems(1) _ this] i show ?thesis by simp
  next
    case False
    show ?thesis
    proof (cases "m (ls ! i) \<and> \<not> rejects h (RemoveLayer ci i)")
      case False
      with \<open>t \<noteq> i\<close> Suc.prems have "remove_loop h ci m (Some t) i ls = (r, ls')" by auto
      from Suc.IH[OF Suc.prems(1) _ this] i show ?thesis by simp
    next
      case True
      define t2 where "t2 = (if i < t then t - 1 else t)"
      from True \<open>t \<noteq> i\<close> Suc.prems have run: "remove_loop h ci m (Some t2) i (remove_at i ls) = (r, ls')"
        by (auto simp: t2_def)
      have a: "t2 < length (remove_at i ls)"
        using i Suc.prems(1) \<open>t \<noteq> i\<close> by (auto simp: t2_def length_remove_at)
      have b: "i \<le> length (remove_at i ls)" using i by (simp add: length_remove_at)
      have c: "remove_at i ls ! t2 = ls ! t"
        using a i Suc.prems(1) \<open>t \<noteq> i\<close> by (auto simp: t2_def nth_remove_at length_remove_at)
      from Suc.IH[OF a b run] c show ?thesis by simp
    qed
  qed
qed

lemma remove_loop_subset:
  "n \<le> length ls \<Longrightarrow> set (snd (remove_loop h ci m tgt n ls)) \<subseteq> set ls"
proof (induction n arbitrary: tgt ls)
  case 0
  then show ?case by simp
next
  case (Suc i)
  then have i: "i < length ls" by simp
  have "set (snd (remove_loop h ci m tgt' i (remove_at i ls))) \<subseteq> set ls" for tgt'
  proof -
    have "i \<le> length (remove_at i ls)" using i by (simp add: length_remove_at)
    from Suc.IH[OF this, of tgt'] set_remove_at[of i ls] show ?thesis by blast
  qed
  moreover have "set (snd (remove_loop h ci m tgt i ls)) \<subseteq> set ls"
    using Suc.IH[of ls tgt] i by simp
  ultimately show ?case by (auto split: option.splits)
qed

lemma remove_loop_filter:
  assumes acc: "\<forall>i. \<not> rejects h (RemoveLayer ci i)"
  shows "n \<le> length ls \<Longrightarrow>
     filter m (snd (remove_loop h ci m tgt n ls)) =
       (case tgt of Some t \<Rightarrow> if t < n \<and> m (ls ! t) then [ls ! t] else [] | None \<Rightarrow> [])
       @ filter m (drop n ls)"
proof (induction n arbitrary: tgt ls)
  case 0
  then show ?case by (simp split: option.splits)
next
  case (Suc i)
  then have i: "i < length ls" by simp
  have d: "drop i ls = ls ! i # drop (Suc i) ls" using i by (simp add: Cons_nth_drop_Suc)
  show ?case
  proof (cases "tgt = Some i")
    case True
    then show ?thesis using Suc.IH[of ls tgt] i d by simp
  next
    case False
    note nt = this
    show ?thesis
    proof (cases "m (ls ! i)")
      case False
      then show ?thesis using Suc.IH[of ls tgt] i d nt
        by (auto split: option.splits simp: less_Suc_eq)
    next
      case True
      define tgt2 where "tgt2 = (case tgt of None \<Rightarrow> None | Some t \<Rightarrow> if i < t then Some (t - 1) else Some t)"
      have run: "remove_loop h ci m tgt (Suc i) ls = remove_loop h ci m tgt2 i (remove_at i ls)"
        using True nt acc by (simp add: tgt2_def)
      have len: "i \<le> length (remove_at i ls)" using i by (simp add: length_remove_at)
      have "filter m (snd (remove_loop h ci m tgt2 i (remove_at i ls))) =
            (case tgt2 of Some t \<Rightarrow> if t < i \<and> m (remove_at i ls ! t) then [remove_at i ls ! t] else [] | None \<Rightarrow> [])
            @ filter m (drop i (remove_at i ls))"
        using Suc.IH[OF len] .
      also have "drop i (remove_at i ls) = drop (Suc i) ls" using i by (rule drop_remove_at)
      also have "(case tgt2 of Some t \<Rightarrow> if t < i \<and> m (remove_at i ls ! t) then [remove_at i ls ! t] else [] | None \<Rightarrow> [])
               = (case tgt of Some t \<Rightarrow> if t < Suc i \<and> m (ls ! t) then [ls ! t] else [] | None \<Rightarrow> [])"
        using nt i by (auto simp: tgt2_def nth_remove_at split: option.splits)
      finally show ?thesis using run by simp
    qed
  qed
qed

lemma is_comp_at_upd_footage [simp]: "is_comp_at (upd_footage j f proj) i = is_comp_at proj i"
  by (auto simp: is_comp_at_def upd_footage_def nth_list_update split: item.splits if_splits)

lemma is_comp_at_upd_comp [simp]: "is_comp_at (upd_comp j f proj) i = is_comp_at proj i"
  by (auto simp: is_comp_at_def upd_comp_def nth_list_update split: item.splits if_splits)

lemma is_comp_at_append: "is_comp_at proj i \<Longrightarrow> is_comp_at (proj @ xs) i"
  by (auto simp: is_comp_at_def nth_append)

lemma length_upd_footage [simp]: "length (upd_footage j f proj) = length proj"
  by (auto simp: upd_footage_def split: item.splits)

lemma length_upd_comp [simp]: "length (upd_comp j f proj) = length proj"
  by (auto simp: upd_comp_def split: item.splits)

lemma layers_of_upd_footage [simp]: "layers_of (upd_footage j f proj) i = layers_of proj i"
  by (auto simp: layers_of_def upd_footage_def nth_list_update split: item.splits if_splits)

lemma layers_of_append: "i < length proj \<Longrightarrow> layers_of (proj @ xs) i = layers_of proj i"
  by (auto simp: layers_of_def nth_append)

lemma layers_of_set_layers:
  "layers_of (set_layers j ls proj) i = (if i = j \<and> is_comp_at proj j then ls else layers_of proj i)"
  by (auto simp: layers_of_def set_layers_def upd_comp_def is_comp_at_def nth_list_update
      split: item.splits if_splits)

lemma is_comp_at_set_layers [simp]: "is_comp_at (set_layers j ls proj) i = is_comp_at proj i"
  by (simp add: set_layers_def)

lemma length_set_layers [simp]: "length (set_layers j ls proj) = length proj"
  by (simp add: set_layers_def)

lemma is_comp_at_reload [simp]: "is_comp_at (reload h j proj) i = is_comp_at proj i"
  by (simp add: reload_def)

lemma layers_of_reload [simp]: "layers_of (reload h j proj) i = layers_of proj i"
  by (simp add: reload_def)

lemma ensureComp_is_comp:
  assumes "ensureComp h st name proj = Inr (i, proj1)"
  shows "is_comp_at proj1 i"
proof (cases "findCompByName proj name")
  case None
  with assms show ?thesis
    by (auto simp: ensureComp_def is_comp_at_def nth_append split: if_splits)
next
  case (Some j)
  then have "j < length proj \<and> is_comp_named name (proj ! j)"
    unfolding findCompByName_def by (rule first_index_Some)
  then have "is_comp_at proj j"
    by (auto simp: is_comp_at_def is_comp_named_def split: item.splits)
  with assms Some show ?thesis by (auto simp: ensureComp_def)
qed

lemma importOrUpdateSequence_keeps_comp:
  assumes "importOrUpdateSequence h file name proj = Inr (r, proj')" and "is_comp_at proj i"
  shows "is_comp_at proj' i"
  using assms
  by (auto simp: importOrUpdateSequence_def swap_source_def is_comp_at_append
      split: option.splits if_splits)

lemma time_remap_fields:
  "l_name (time_remap h st ci t fd sf ef lay) = l_name lay \<and>
   l_source (time_remap h st ci t fd sf ef lay) = l_source lay \<and>
   l_startTime (time_remap h st ci t fd sf ef lay) = l_startTime lay \<and>
   l_inPoint (time_remap h st ci t fd sf ef lay) = l_inPoint lay \<and>
   l_outPoint (time_remap h st ci t fd sf ef lay) = l_outPoint lay"
  by (simp add: time_remap_def split: option.splits prod.splits bool.splits)

lemma bind_target_Some:
  assumes "bind_target h ci proj (Some fi) name ls = Inr b"
  shows "\<exists>t ls1. b = Some (t, ls1) \<and> t < length ls1 \<and> l_source (ls1 ! t) = Some (SrcFootage fi)"
proof (cases "first_index (is_source_layer name) ls")
  case None
  with assms show ?thesis
    by (auto simp: bind_target_def layer_of_item_def split: if_splits)
next
  case (Some t)
  then have "t < length ls" using first_index_Some by fastforce
  with assms Some show ?thesis
    by (auto simp: bind_target_def layer_of_item_def split: if_splits)
qed

lemma ensureSourceLayer_target:
  assumes run: "ensureSourceLayer h st pre (Some fi) name sf ef proj = Inr (r, proj')"
    and pre: "is_comp_at proj pre"
  shows "\<exists>t t0 lay0. r = Some t \<and> t < length (layers_of proj' pre)
           \<and> layers_of proj' pre ! t =
               time_remap h st pre t0 (item_duration (interpret_footage h st fi proj) (SrcFootage fi)) sf ef
                 (lay0\<lparr>l_startTime := layerStartTime st sf, l_inPoint := layerStartTime st sf,
                       l_outPoint := layerEndTime st sf ef\<rparr>)
           \<and> l_source lay0 = Some (SrcFootage fi)
           \<and> (\<not> rejects h (SetLayer pre t0 PName) \<longrightarrow> l_name lay0 = name)"
proof -
  from run obtain b where b: "bind_target h pre proj (Some fi) name (layers_of proj pre) = Inr b"
    by (auto simp: ensureSourceLayer_def split: sum.splits)
  from bind_target_Some[OF b] obtain t0 ls1 where
    b': "b = Some (t0, ls1)" and t0: "t0 < length ls1" and src: "l_source (ls1 ! t0) = Some (SrcFootage fi)"
    by blast
  define lay0 where "lay0 = set_name h pre t0 name (ls1 ! t0)"
  define proj1 where "proj1 = interpret_footage h st fi proj"
  from run b b' obtain lay where
    tim: "set_timing h st pre t0 sf ef lay0 = Inr lay"
    by (auto simp: ensureSourceLayer_def Let_def lay0_def split: sum.splits)
  define L where "L = time_remap h st pre t0 (item_duration proj1 (SrcFootage fi)) sf ef lay"
  define ls2 where "ls2 = ls1[t0 := L]"
  from run b b' tim have fin:
    "(r, proj') = (case remove_loop h pre (is_source_layer name) (Some t0) (length ls2) ls2 of
                     (t', ls') \<Rightarrow> (t', set_layers pre ls' proj1))"
    by (auto simp: ensureSourceLayer_def Let_def lay0_def proj1_def L_def ls2_def split: prod.splits)
  obtain t' ls' where rl: "remove_loop h pre (is_source_layer name) (Some t0) (length ls2) ls2 = (t', ls')"
    by fastforce
  have t0': "t0 < length ls2" using t0 by (simp add: ls2_def)
  from remove_loop_target[OF t0' _ rl] obtain t where
    t: "t' = Some t" "t < length ls'" "ls' ! t = ls2 ! t0" by auto
  have pre1: "is_comp_at proj1 pre" using pre by (simp add: proj1_def interpret_footage_def)
  from fin rl have r: "r = t'" and p: "proj' = set_layers pre ls' proj1" by auto
  have lo: "layers_of proj' pre = ls'" using p pre1 by (simp add: layers_of_set_layers)
  have layeq: "lay = lay0\<lparr>l_startTime := layerStartTime st sf, l_inPoint := layerStartTime st sf,
                       l_outPoint := layerEndTime st sf ef\<rparr>"
    using tim by (auto simp: set_timing_def split: if_splits)
  have "ls2 ! t0 = L" using t0 by (simp add: ls2_def)
  moreover have "l_source lay0 = Some (SrcFootage fi)" using src by (simp add: lay0_def set_name_def)
  moreover have "\<not> rejects h (SetLayer pre t0 PName) \<longrightarrow> l_name lay0 = name"
    by (simp add: lay0_def set_name_def)
  ultimately show ?thesis using r t lo layeq unfolding L_def proj1_def by metis
qed

lemma nest_in_main_layers:
  assumes "nest_in_main h st mainComp pre name proj = Inr proj'"
  shows "\<exists>extra. layers_of proj' i = extra @ layers_of proj i
           \<and> (\<forall>l\<in>set extra. l_source l = Some (SrcComp pre))"
proof (cases "list_ex (shows_comp_named proj name) (layers_of proj mainComp)")
  case True
  with assms show ?thesis by (simp add: nest_in_main_def)
next
  case False
  with assms obtain a2 where p: "proj' = set_layers mainComp (a2 # layers_of proj mainComp) proj"
    and s: "l_source a2 = Some (SrcComp pre)"
    by (auto simp: nest_in_main_def Let_def set_name_def layer_of_item_def split: if_splits)
  show ?thesis
  proof (cases "i = mainComp \<and> is_comp_at proj mainComp")
    case True
    then have "layers_of proj' i = [a2] @ layers_of proj i" using p by (simp add: layers_of_set_layers)
    with s show ?thesis by (metis list.set(1) list.set(2) empty_iff insert_iff)
  next
    case False
    then have "layers_of proj' i = [] @ layers_of proj i" using p by (auto simp: layers_of_set_layers)
    then show ?thesis by (metis empty_iff list.set(1))
  qed
qed

lemma ensureSourceLayer_layers:
  assumes run: "ensureSourceLayer h st pre (Some fi) name sf ef proj = Inr (r, proj')"
    and pre: "is_comp_at proj pre"
  shows "\<exists>t0 ls2. t0 < length ls2 \<and>
           layers_of proj' pre = snd (remove_loop h pre (is_source_layer name) (Some t0) (length ls2) ls2)"
proof -
  from run obtain b where b: "bind_target h pre proj (Some fi) name (layers_of proj pre) = Inr b"
    by (auto simp: ensureSourceLayer_def split: sum.splits)
  from bind_target_Some[OF b] obtain t0 ls1 where
    b': "b = Some (t0, ls1)" and t0: "t0 < length ls1"
    by blast
  define lay0 where "lay0 = set_name h pre t0 name (ls1 ! t0)"
  define proj1 where "proj1 = interpret_footage h st fi proj"
  from run b b' obtain lay where
    tim: "set_timing h st pre t0 sf ef lay0 = Inr lay"
    by (auto simp: ensureSourceLayer_def Let_def lay0_def split: sum.splits)
  define L where "L = time_remap h st pre t0 (item_duration proj1 (SrcFootage fi)) sf ef lay"
  define ls2 where "ls2 = ls1[t0 := L]"
  from run b b' tim have fin:
    "(r, proj') = (case remove_loop h pre (is_source_layer name) (Some t0) (length ls2) ls2 of
                     (t', ls') \<Rightarrow> (t', set_layers pre ls' proj1))"
    by (auto simp: ensureSourceLayer_def Let_def lay0_def proj1_def L_def ls2_def split: prod.splits)
  have pre1: "is_comp_at proj1 pre" using pre by (simp add: proj1_def interpret_footage_def)
  from fin have "proj' = set_layers pre (snd (remove_loop h pre (is_source_layer name) (Some t0) (length ls2) ls2)) proj1"
    by (auto split: prod.splits)
  then have "layers_of proj' pre = snd (remove_loop h pre (is_source_layer name) (Some t0) (length ls2) ls2)"
    using pre1 by (simp add: layers_of_set_layers)
  moreover have "t0 < length ls2" using t0 by (simp add: ls2_def)
  ultimately show ?thesis by blast
qed

text \<open>
  The target of \<open>ensureSourceLayer\<close>: the first layer with the reserved name, or a
  fresh layer of the footage; the removal of the placeholders does not touch it.
\<close>

lemma names_differ: "sourceLayerName it \<noteq> missingName it"
proof
  assume "sourceLayerName it = missingName it"
  then have "length (sourceLayerName it) = length (missingName it)" by simp
  then show False by (simp add: sourceLayerName_def missingName_def)
qed

lemma find_by_filter: "find P xs = (case filter P xs of [] \<Rightarrow> None | x # ys \<Rightarrow> Some x)"
  by (induction xs) auto

lemma find_first_index:
  "find P xs = (case first_index P xs of None \<Rightarrow> None | Some i \<Rightarrow> Some (xs ! i))"
  by (induction xs) (auto split: option.splits)

lemma filter_remove_at_other:
  assumes "i < length xs" and "\<not> P (xs ! i)"
  shows "filter P (remove_at i xs) = filter P xs"
proof -
  have "xs = take i xs @ xs ! i # drop (Suc i) xs" using assms(1) by (rule id_take_nth_drop)
  then have "filter P xs = filter P (take i xs) @ filter P (xs ! i # drop (Suc i) xs)"
    by (metis filter_append)
  with assms(2) show ?thesis by (simp add: remove_at_def)
qed

lemma remove_loop_filter_other:
  assumes other: "\<And>l. P l \<Longrightarrow> \<not> m l"
  shows "n \<le> length ls \<Longrightarrow> filter P (snd (remove_loop h ci m tgt n ls)) = filter P ls"
proof (induction n arbitrary: tgt ls)
  case 0
  then show ?case by simp
next
  case (Suc i)
  then have i: "i < length ls" by simp
  have keepc: "filter P (snd (remove_loop h ci m tgt' i ls)) = filter P ls" for tgt'
    using Suc.IH[of ls tgt'] i by simp
  have rem: "m (ls ! i) \<Longrightarrow>
      filter P (snd (remove_loop h ci m tgt' i (remove_at i ls))) = filter P ls" for tgt'
  proof -
    assume mm: "m (ls ! i)"
    have "i \<le> length (remove_at i ls)" using i by (simp add: length_remove_at)
    from Suc.IH[OF this, of tgt'] have
      "filter P (snd (remove_loop h ci m tgt' i (remove_at i ls))) = filter P (remove_at i ls)" .
    also have "\<dots> = filter P ls" using i mm other by (intro filter_remove_at_other) auto
    finally show ?thesis .
  qed
  show ?case using keepc rem by (auto split: option.splits)
qed

lemma bind_target_keep:
  assumes keep: "\<forall>t. \<not> rejects h (ReplaceSource ci t)"
    and b: "bind_target h ci proj (Some fi) name ls = Inr b"
  shows "\<exists>t ls1. b = Some (t, ls1) \<and> t < length ls1 \<and>
           ls1 ! t = (case find (is_source_layer name) ls of
                        Some lay \<Rightarrow> lay
                      | None \<Rightarrow> layer_of_item proj (SrcFootage fi))\<lparr>l_source := Some (SrcFootage fi)\<rparr>"
proof (cases "first_index (is_source_layer name) ls")
  case None
  then have "find (is_source_layer name) ls = None" by (simp add: find_first_index)
  with b None show ?thesis
    by (auto simp: bind_target_def layer_of_item_def split: if_splits)
next
  case (Some t)
  then have t: "t < length ls" using first_index_Some by fastforce
  from Some have f: "find (is_source_layer name) ls = Some (ls ! t)" by (simp add: find_first_index)
  show ?thesis
  proof (cases "l_source (ls ! t) = Some (SrcFootage fi)")
    case True
    then have "(ls ! t)\<lparr>l_source := Some (SrcFootage fi)\<rparr> = ls ! t" by (cases "ls ! t") auto
    with b Some True t f show ?thesis by (auto simp: bind_target_def)
  next
    case False
    with b Some t f keep show ?thesis by (auto simp: bind_target_def)
  qed
qed

lemma ensureSourceLayer_final:
  assumes run: "ensureSourceLayer h st pre (Some fi) name sf ef proj = Inr (r, proj')"
    and pre: "is_comp_at proj pre"
  shows "\<exists>t t0 ls1. bind_target h pre proj (Some fi) name (layers_of proj pre) = Inr (Some (t0, ls1))
           \<and> r = Some t \<and> t < length (layers_of proj' pre)
           \<and> layers_of proj' pre ! t =
               time_remap h st pre t0 (item_duration (interpret_footage h st fi proj) (SrcFootage fi)) sf ef
                 ((set_name h pre t0 name (ls1 ! t0))
                    \<lparr>l_startTime := layerStartTime st sf, l_inPoint := layerStartTime st sf,
                     l_outPoint := layerEndTime st sf ef\<rparr>)"
proof -
  from run obtain b where b: "bind_target h pre proj (Some fi) name (layers_of proj pre) = Inr b"
    by (auto simp: ensureSourceLayer_def split: sum.splits)
  from bind_target_Some[OF b] obtain t0 ls1 where
    b': "b = Some (t0, ls1)" and t0: "t0 < length ls1"
    by blast
  define lay0 where "lay0 = set_name h pre t0 name (ls1 ! t0)"
  define proj1 where "proj1 = interpret_footage h st fi proj"
  from run b b' obtain lay where
    tim: "set_timing h st pre t0 sf ef lay0 = Inr lay"
    by (auto simp: ensureSourceLayer_def Let_def lay0_def split: sum.splits)
  define L where "L = time_remap h st pre t0 (item_duration proj1 (SrcFootage fi)) sf ef lay"
  define ls2 where "ls2 = ls1[t0 := L]"
  from run b b' tim have fin:
    "(r, proj') = (case remove_loop h pre (is_source_layer name) (Some t0) (length ls2) ls2 of
                     (t', ls') \<Rightarrow> (t', set_layers pre ls' proj1))"
    by (auto simp: ensureSourceLayer_def Let_def lay0_def proj1_def L_def ls2_def split: prod.splits)
  obtain t' ls' where rl: "remove_loop h pre (is_source_layer name) (Some t0) (length ls2) ls2 = (t', ls')"
    by fastforce
  have t0': "t0 < length ls2" using t0 by (simp add: ls2_def)
  from remove_loop_target[OF t0' _ rl] obtain t where
    t: "t' = Some t" "t < length ls'" "ls' ! t = ls2 ! t0" by auto
  have pre1: "is_comp_at proj1 pre" using pre by (simp add: proj1_def interpret_footage_def)
  from fin rl have r: "r = t'" and p: "proj' = set_layers pre ls' proj1" by auto
  have lo: "layers_of proj' pre = ls'" using p pre1 by (simp add: layers_of_set_layers)
  have layeq: "lay = lay0\<lparr>l_startTime := layerStartTime st sf, l_inPoint := layerStartTime st sf,
                       l_outPoint := layerEndTime st sf ef\<rparr>"
    using tim by (auto simp: set_timing_def split: if_splits)
  have "ls2 ! t0 = L" using t0 by (simp add: ls2_def)
  then show ?thesis using b b' r t lo layeq unfolding L_def proj1_def lay0_def by metis
qed

lemma item_duration_upd_footage:
  assumes "\<And>x. f_duration (f x) = f_duration x"
  shows "item_duration (upd_footage j f proj) s = item_duration proj s"
  using assms
  by (auto simp: item_duration_def upd_footage_def nth_list_update split: src.splits item.splits if_splits)

lemma item_duration_set_layers: "item_duration (set_layers j ls proj) s = item_duration proj s"
  by (auto simp: item_duration_def set_layers_def upd_comp_def nth_list_update
      split: src.splits item.splits if_splits)

lemma layer_of_item_upd_footage:
  assumes "\<And>x. f_duration (f x) = f_duration x \<and> f_name (f x) = f_name x \<and> f_mainSource (f x) = f_mainSource x"
  shows "layer_of_item (upd_footage j f proj) (SrcFootage fi) = layer_of_item proj (SrcFootage fi)"
  using assms
  by (auto simp: layer_of_item_def item_name_def item_duration_def item_can_remap_def upd_footage_def
      nth_list_update split: item.splits if_splits)

lemma layer_of_item_set_layers:
  "layer_of_item (set_layers j ls proj) (SrcFootage fi) = layer_of_item proj (SrcFootage fi)"
  by (auto simp: layer_of_item_def item_name_def item_duration_def item_can_remap_def set_layers_def
      upd_comp_def nth_list_update split: item.splits if_splits)

section \<open>The timing of the source layer\<close>

text \<open>
  C4. For every shot whose footage resolves, a run of the item that completes leaves in
  the composition of the item a layer bound to the footage whose start time is
  \<open>(first - GLOBAL_FIRST) / FRAME_RATE\<close>, whose in point is the start time and whose out
  point is the start time plus \<open>(last - first + 1) / FRAME_RATE\<close>, whatever these fields
  were before; so the out point minus the start time is the layer duration, within 0.01.
  The layer bears the reserved name when the host accepts the renaming.
\<close>

theorem source_layer_timing:
  assumes run: "process_item h st mainComp it proj = Inr proj'"
    and pre: "ensureComp h st (preName it) proj = Inr (pre, proj1)"
    and res: "importOrUpdateSequence h (s_file it) (s_name it) proj1 = Inr (Some fi, proj2)"
  shows "\<exists>lay\<in>set (layers_of proj' pre).
           l_source lay = Some (SrcFootage fi)
         \<and> l_startTime lay = (s_first it - GLOBAL_FIRST st) / FRAME_RATE st
         \<and> l_inPoint lay = l_startTime lay
         \<and> l_outPoint lay = l_startTime lay + (s_last it - s_first it + 1) / FRAME_RATE st
         \<and> \<bar>l_outPoint lay - l_startTime lay - (s_last it - s_first it + 1) / FRAME_RATE st\<bar> \<le> 1 / 100
         \<and> ((\<forall>t. \<not> rejects h (SetLayer pre t PName)) \<longrightarrow> l_name lay = sourceLayerName it)"
proof -
  define proj3 where "proj3 = conform_footage h st fi proj2"
  define ls1 where "ls1 = snd (remove_loop h pre (\<lambda>l. l_name l = missingName it) None
                                 (length (layers_of proj3 pre)) (layers_of proj3 pre))"
  define proj3' where "proj3' = set_layers pre ls1 proj3"
  from run pre res obtain r proj4 where
    esl: "ensureSourceLayer h st pre (Some fi) (sourceLayerName it) (s_first it) (s_last it) proj3' = Inr (r, proj4)"
    and nest: "nest_in_main h st mainComp pre (preName it) proj4 = Inr proj'"
    by (auto simp: process_item_def Let_def proj3_def ls1_def proj3'_def
        split: sum.splits if_splits)
  have c: "is_comp_at proj3' pre"
    using ensureComp_is_comp[OF pre] importOrUpdateSequence_keeps_comp[OF res]
    by (simp add: proj3'_def proj3_def conform_footage_def)
  from ensureSourceLayer_target[OF esl c] obtain t t0 lay0 where
    t: "t < length (layers_of proj4 pre)" and
    L: "layers_of proj4 pre ! t =
               time_remap h st pre t0 (item_duration (interpret_footage h st fi proj3') (SrcFootage fi))
                 (s_first it) (s_last it)
                 (lay0\<lparr>l_startTime := layerStartTime st (s_first it), l_inPoint := layerStartTime st (s_first it),
                       l_outPoint := layerEndTime st (s_first it) (s_last it)\<rparr>)" and
    s: "l_source lay0 = Some (SrcFootage fi)" and
    n: "\<not> rejects h (SetLayer pre t0 PName) \<longrightarrow> l_name lay0 = sourceLayerName it"
    by blast
  define lay where "lay = layers_of proj4 pre ! t"
  have mem4: "lay \<in> set (layers_of proj4 pre)" using t by (simp add: lay_def)
  from nest_in_main_layers[OF nest, of pre] have "set (layers_of proj4 pre) \<subseteq> set (layers_of proj' pre)"
    by auto
  with mem4 have mem: "lay \<in> set (layers_of proj' pre)" by blast
  have f: "l_source lay = Some (SrcFootage fi)"
      "l_startTime lay = layerStartTime st (s_first it)"
      "l_inPoint lay = layerStartTime st (s_first it)"
      "l_outPoint lay = layerEndTime st (s_first it) (s_last it)"
      "\<not> rejects h (SetLayer pre t0 PName) \<longrightarrow> l_name lay = sourceLayerName it"
    using L s n time_remap_fields unfolding lay_def by simp_all
  show ?thesis
  proof (rule bexI[OF _ mem])
    show "l_source lay = Some (SrcFootage fi)
         \<and> l_startTime lay = (s_first it - GLOBAL_FIRST st) / FRAME_RATE st
         \<and> l_inPoint lay = l_startTime lay
         \<and> l_outPoint lay = l_startTime lay + (s_last it - s_first it + 1) / FRAME_RATE st
         \<and> \<bar>l_outPoint lay - l_startTime lay - (s_last it - s_first it + 1) / FRAME_RATE st\<bar> \<le> 1 / 100
         \<and> ((\<forall>t. \<not> rejects h (SetLayer pre t PName)) \<longrightarrow> l_name lay = sourceLayerName it)"
      using f by (simp add: layerStartTime_def layerEndTime_def layerDuration_def)
  qed
qed

theorem source_layer_timing_witness:
  "process_item host_media ex_settings 0 ex_shot [CompItem ex_main] = Inr (ex_resolved (25 / 6))
   \<and> ensureComp host_media ex_settings (preName ex_shot) [CompItem ex_main]
       = Inr (1, [CompItem ex_main, CompItem (ex_child [])])
   \<and> importOrUpdateSequence host_media (s_file ex_shot) (s_name ex_shot)
         [CompItem ex_main, CompItem (ex_child [])]
       = Inr (Some 2, [CompItem ex_main, CompItem (ex_child []), FootageItem (ex_footage 0)])
   \<and> s_first ex_shot \<le> s_last ex_shot
   \<and> (\<exists>lay. lay \<in> set (layers_of (ex_resolved (25 / 6)) 1)
          \<and> l_source lay = Some (SrcFootage 2) \<and> l_startTime lay = 0 \<and> l_inPoint lay = 0
          \<and> l_outPoint lay = 25 / 6 \<and> l_name lay = ''[AEBridge]_Source_beauty'')"
proof -
  have run: "process_item host_media ex_settings 0 ex_shot [CompItem ex_main]
               = Inr (ex_resolved (25 / 6))"
    by (simp add: ensureComp_def findCompByName_def is_comp_named_def syncCompSettings_def
        new_comp_def DURATION_def upd_comp_def Let_def importOrUpdateSequence_def
        findFootageByFirstFile_def findFootageByName_def has_file_def
        is_footage_named_def is_sequence_named_def reload_def file_of_item_def
        swap_source_def imported_def upd_footage_def process_item_def preName_def
        missingName_def sourceLayerName_def conform_footage_def add_placeholder_def
        solid_item_def solid_layer_def ensureSourceLayer_def bind_target_def
        is_source_layer_def interpret_footage_def set_timing_def set_name_def
        time_remap_def layerStartTime_def layerDuration_def layerEndTime_def
        nest_in_main_def shows_comp_named_def layer_of_item_def item_name_def
        item_duration_def item_can_remap_def layers_of_def set_layers_def remove_at_def
        host_media_def host_ok_def ex_settings_def ex_shot_def ex_resolved_def
        ex_main_def ex_child_def ex_nested_def ex_source_layer_def ex_footage_def)
  have pre: "ensureComp host_media ex_settings (preName ex_shot) [CompItem ex_main]
               = Inr (1, [CompItem ex_main, CompItem (ex_child [])])"
    by (simp add: ensureComp_def findCompByName_def is_comp_named_def syncCompSettings_def
        new_comp_def DURATION_def upd_comp_def Let_def importOrUpdateSequence_def
        findFootageByFirstFile_def findFootageByName_def has_file_def
        is_footage_named_def is_sequence_named_def reload_def file_of_item_def
        swap_source_def imported_def upd_footage_def process_item_def preName_def
        missingName_def sourceLayerName_def conform_footage_def add_placeholder_def
        solid_item_def solid_layer_def ensureSourceLayer_def bind_target_def
        is_source_layer_def interpret_footage_def set_timing_def set_name_def
        time_remap_def layerStartTime_def layerDuration_def layerEndTime_def
        nest_in_main_def shows_comp_named_def layer_of_item_def item_name_def
        item_duration_def item_can_remap_def layers_of_def set_layers_def remove_at_def
        host_media_def host_ok_def ex_settings_def ex_shot_def ex_resolved_def
        ex_main_def ex_child_def ex_nested_def ex_source_layer_def ex_footage_def)
  have res: "importOrUpdateSequence host_media (s_file ex_shot) (s_name ex_shot)
                 [CompItem ex_main, CompItem (ex_child [])]
               = Inr (Some 2, [CompItem ex_main, CompItem (ex_child []), FootageItem (ex_footage 0)])"
    by (simp add: ensureComp_def findCompByName_def is_comp_named_def syncCompSettings_def
        new_comp_def DURATION_def upd_comp_def Let_def importOrUpdateSequence_def
        findFootageByFirstFile_def findFootageByName_def has_file_def
        is_footage_named_def is_sequence_named_def reload_def file_of_item_def
        swap_source_def imported_def upd_footage_def process_item_def preName_def
        missingName_def sourceLayerName_def conform_footage_def add_placeholder_def
        solid_item_def solid_layer_def ensureSourceLayer_def bind_target_def
        is_source_layer_def interpret_footage_def set_timing_def set_name_def
        time_remap_def layerStartTime_def layerDuration_def layerEndTime_def
        nest_in_main_def shows_comp_named_def layer_of_item_def item_name_def
        item_duration_def item_can_remap_def layers_of_def set_layers_def remove_at_def
        host_media_def host_ok_def ex_settings_def ex_shot_def ex_resolved_def
        ex_main_def ex_child_def ex_nested_def ex_source_layer_def ex_footage_def)
  have acc: "\<forall>t. \<not> rejects host_media (SetLayer 1 t PName)"
    by (simp add: host_media_def host_ok_def)
  from source_layer_timing [OF run pre res] acc obtain lay where
    "lay \<in> set (layers_of (ex_resolved (25 / 6)) 1)"
    "l_source lay = Some (SrcFootage 2)"
    "l_startTime lay = (s_first ex_shot - GLOBAL_FIRST ex_settings) / FRAME_RATE ex_settings"
    "l_inPoint lay = l_startTime lay"
    "l_outPoint lay = l_startTime lay + (s_last ex_shot - s_first ex_shot + 1) / FRAME_RATE ex_settings"
    "l_name lay = sourceLayerName ex_shot"
    by blast
  then have "lay \<in> set (layers_of (ex_resolved (25 / 6)) 1)
          \<and> l_source lay = Some (SrcFootage 2) \<and> l_startTime lay = 0 \<and> l_inPoint lay = 0
          \<and> l_outPoint lay = 25 / 6 \<and> l_name lay = ''[AEBridge]_Source_beauty''"
    by (simp add: ex_settings_def ex_shot_def sourceLayerName_def)
  then have "\<exists>lay. lay \<in> set (layers_of (ex_resolved (25 / 6)) 1)
          \<and> l_source lay = Some (SrcFootage 2) \<and> l_startTime lay = 0 \<and> l_inPoint lay = 0
          \<and> l_outPoint lay = 25 / 6 \<and> l_name lay = ''[AEBridge]_Source_beauty''"
    by blast
  moreover have "s_first ex_shot \<le> s_last ex_shot" by (simp add: ex_shot_def)
  ultimately show ?thesis using run pre res by blast
qed

section \<open>Time remapping\<close>

lemma removeKeys_accepted: "removeKeys False ks = (False, [])"
  by (induction ks) auto

text \<open>
  The block of lines 516 to 540 on one layer: it leaves a layer with time remapping enabled
  as it is, and on a layer without it installs the two keyframes.
\<close>

lemma time_remap_block:
  assumes "\<bar>fd - layerDuration st sf ef\<bar> > 0.01"
  shows "(l_timeRemapEnabled lay \<longrightarrow> time_remap h st ci t fd sf ef lay = lay)
       \<and> (l_canSetTimeRemapEnabled lay \<and> \<not> l_timeRemapEnabled lay \<and> l_timeRemap lay = Some keys
            \<and> sf \<le> ef \<and> 0 < FRAME_RATE st
            \<and> \<not> rejects h (SetLayer ci t PTimeRemapEnabled) \<and> \<not> rejects h (RemoveKey ci t)
            \<and> (\<forall>x. \<not> rejects h (SetValueAtTime ci t x))
          \<longrightarrow> time_remap h st ci t fd sf ef lay =
                lay\<lparr>l_timeRemapEnabled := True,
                    l_timeRemap := Some [(layerStartTime st sf, 0), (layerEndTime st sf ef, fd)]\<rparr>)"
proof (intro conjI impI)
  assume "l_timeRemapEnabled lay"
  then show "time_remap h st ci t fd sf ef lay = lay" by (simp add: time_remap_def)
next
  assume a: "l_canSetTimeRemapEnabled lay \<and> \<not> l_timeRemapEnabled lay \<and> l_timeRemap lay = Some keys
            \<and> sf \<le> ef \<and> 0 < FRAME_RATE st
            \<and> \<not> rejects h (SetLayer ci t PTimeRemapEnabled) \<and> \<not> rejects h (RemoveKey ci t)
            \<and> (\<forall>x. \<not> rejects h (SetValueAtTime ci t x))"
  then have "0 < layerDuration st sf ef" by (simp add: layerDuration_def)
  then have lt: "layerStartTime st sf < layerEndTime st sf ef" by (simp add: layerEndTime_def)
  from a assms lt show "time_remap h st ci t fd sf ef lay =
                lay\<lparr>l_timeRemapEnabled := True,
                    l_timeRemap := Some [(layerStartTime st sf, 0), (layerEndTime st sf ef, fd)]\<rparr>"
    by (simp add: time_remap_def removeKeys_accepted)
qed

text \<open>
  C6, as amended. Take a run of the loop body on a shot whose footage resolves, and let the
  duration of the footage differ from the layer duration by more than 0.01 s. The layer
  that \<open>ensureSourceLayer\<close> works on is the first layer of the composition of the item
  with the reserved name, or a fresh layer of the footage when there is none
  (\<open>remap_target\<close>); the host is taken to accept \<^verbatim>\<open>replaceSource\<close>, so that this layer
  stays the target. After the run the composition of the item holds a layer bound to the
  footage, with the start time and the out point of the shot, such that:
  when the target had time remapping enabled before the run (as after an earlier run), it
  is still enabled and the keyframes are those from before the run;
  when the target could have time remapping enabled, did not have it enabled and has the
  remap property, the shot has \<open>first \<le> last\<close>, the frame rate is positive and the host
  accepts the writes, time remapping is enabled and the keyframes are exactly
  (layerStartTime, 0) and (layerEndTime, duration of the footage), whatever keyframes the
  layer had.
\<close>

theorem reconcile_time_remap:
  assumes run: "process_item h st mainComp it proj = Inr proj'"
    and pre: "ensureComp h st (preName it) proj = Inr (pre, proj1)"
    and res: "importOrUpdateSequence h (s_file it) (s_name it) proj1 = Inr (Some fi, proj2)"
    and diff: "\<bar>item_duration proj2 (SrcFootage fi) - layerDuration st (s_first it) (s_last it)\<bar> > 0.01"
    and keep: "\<forall>t. \<not> rejects h (ReplaceSource pre t)"
  shows "\<exists>lay\<in>set (layers_of proj' pre).
           l_source lay = Some (SrcFootage fi)
         \<and> l_startTime lay = layerStartTime st (s_first it)
         \<and> l_outPoint lay = layerEndTime st (s_first it) (s_last it)
         \<and> (l_timeRemapEnabled (remap_target proj2 pre fi (sourceLayerName it)) \<longrightarrow>
              l_timeRemapEnabled lay
              \<and> l_timeRemap lay = l_timeRemap (remap_target proj2 pre fi (sourceLayerName it)))
         \<and> (l_canSetTimeRemapEnabled (remap_target proj2 pre fi (sourceLayerName it))
              \<and> \<not> l_timeRemapEnabled (remap_target proj2 pre fi (sourceLayerName it))
              \<and> l_timeRemap (remap_target proj2 pre fi (sourceLayerName it)) \<noteq> None
              \<and> s_first it \<le> s_last it \<and> 0 < FRAME_RATE st
              \<and> (\<forall>t. \<not> rejects h (SetLayer pre t PTimeRemapEnabled))
              \<and> (\<forall>t. \<not> rejects h (RemoveKey pre t))
              \<and> (\<forall>t x. \<not> rejects h (SetValueAtTime pre t x))
            \<longrightarrow> l_timeRemapEnabled lay
              \<and> l_timeRemap lay =
                  Some [(layerStartTime st (s_first it), 0),
                        (layerEndTime st (s_first it) (s_last it), item_duration proj2 (SrcFootage fi))])"
proof -
  define name where "name = sourceLayerName it"
  define sf where "sf = s_first it"
  define ef where "ef = s_last it"
  define fd where "fd = item_duration proj2 (SrcFootage fi)"
  define T where "T = remap_target proj2 pre fi name"
  define proj3 where "proj3 = conform_footage h st fi proj2"
  define ls1 where "ls1 = snd (remove_loop h pre (\<lambda>l. l_name l = missingName it) None
                                 (length (layers_of proj3 pre)) (layers_of proj3 pre))"
  define proj3' where "proj3' = set_layers pre ls1 proj3"
  from run pre res obtain r proj4 where
    esl: "ensureSourceLayer h st pre (Some fi) name sf ef proj3' = Inr (r, proj4)"
    and nest: "nest_in_main h st mainComp pre (preName it) proj4 = Inr proj'"
    by (auto simp: process_item_def Let_def proj3_def ls1_def proj3'_def name_def sf_def ef_def
        split: sum.splits if_splits)
  have c2: "is_comp_at proj2 pre"
    using ensureComp_is_comp[OF pre] importOrUpdateSequence_keeps_comp[OF res] by simp
  have c: "is_comp_at proj3' pre"
    using c2 by (simp add: proj3'_def proj3_def conform_footage_def)
  have l3: "layers_of proj3 pre = layers_of proj2 pre"
    by (simp add: proj3_def conform_footage_def)
  have l3': "layers_of proj3' pre = ls1"
    using c2 by (simp add: proj3'_def layers_of_set_layers proj3_def conform_footage_def)
  have "filter (is_source_layer name) ls1 = filter (is_source_layer name) (layers_of proj3 pre)"
    unfolding ls1_def
  proof (rule remove_loop_filter_other)
    fix l assume "is_source_layer name l"
    then show "\<not> l_name l = missingName it"
      using names_differ[of it] by (auto simp: is_source_layer_def name_def)
  qed simp
  then have fnd: "find (is_source_layer name) ls1 = find (is_source_layer name) (layers_of proj2 pre)"
    using l3 by (simp add: find_by_filter)
  have loi: "layer_of_item proj3' (SrcFootage fi) = layer_of_item proj2 (SrcFootage fi)"
    unfolding proj3'_def proj3_def conform_footage_def
    by (simp add: layer_of_item_set_layers layer_of_item_upd_footage)
  have dur: "item_duration (interpret_footage h st fi proj3') (SrcFootage fi) = fd"
    unfolding proj3'_def proj3_def conform_footage_def interpret_footage_def fd_def
    by (simp add: item_duration_upd_footage item_duration_set_layers split: main_source.splits)
  from ensureSourceLayer_final[OF esl c] obtain t t0 ls1' where
    bt: "bind_target h pre proj3' (Some fi) name (layers_of proj3' pre) = Inr (Some (t0, ls1'))" and
    t: "t < length (layers_of proj4 pre)" and
    L: "layers_of proj4 pre ! t =
               time_remap h st pre t0 (item_duration (interpret_footage h st fi proj3') (SrcFootage fi)) sf ef
                 ((set_name h pre t0 name (ls1' ! t0))
                    \<lparr>l_startTime := layerStartTime st sf, l_inPoint := layerStartTime st sf,
                     l_outPoint := layerEndTime st sf ef\<rparr>)"
    by blast
  from bind_target_keep[OF keep bt] have tgt: "ls1' ! t0 = T\<lparr>l_source := Some (SrcFootage fi)\<rparr>"
    by (simp add: l3' fnd loi T_def remap_target_def cong: option.case_cong)
  define B where "B = (set_name h pre t0 name (ls1' ! t0))
                    \<lparr>l_startTime := layerStartTime st sf, l_inPoint := layerStartTime st sf,
                     l_outPoint := layerEndTime st sf ef\<rparr>"
  have B: "l_source B = Some (SrcFootage fi)" "l_startTime B = layerStartTime st sf"
    "l_outPoint B = layerEndTime st sf ef"
    "l_timeRemapEnabled B = l_timeRemapEnabled T" "l_timeRemap B = l_timeRemap T"
    "l_canSetTimeRemapEnabled B = l_canSetTimeRemapEnabled T"
    by (simp_all add: B_def tgt set_name_def)
  define lay where "lay = layers_of proj4 pre ! t"
  have layL: "lay = time_remap h st pre t0 fd sf ef B" using L dur by (simp add: lay_def B_def)
  have mem4: "lay \<in> set (layers_of proj4 pre)" using t by (simp add: lay_def)
  from nest_in_main_layers[OF nest, of pre] have "set (layers_of proj4 pre) \<subseteq> set (layers_of proj' pre)"
    by auto
  with mem4 have mem: "lay \<in> set (layers_of proj' pre)" by blast
  have diff': "\<bar>fd - layerDuration st sf ef\<bar> > 0.01" using diff by (simp add: fd_def sf_def ef_def)
  have basic: "l_source lay = Some (SrcFootage fi)" "l_startTime lay = layerStartTime st sf"
    "l_outPoint lay = layerEndTime st sf ef"
    using layL B time_remap_fields[of h st pre t0 fd sf ef B] by simp_all
  have partB: "l_timeRemapEnabled T \<Longrightarrow> l_timeRemapEnabled lay \<and> l_timeRemap lay = l_timeRemap T"
  proof -
    assume "l_timeRemapEnabled T"
    then have "l_timeRemapEnabled B" using B by simp
    with time_remap_block[OF diff', of B h pre t0] have "lay = B" using layL by simp
    then show ?thesis using B \<open>l_timeRemapEnabled T\<close> by simp
  qed
  have partA: "l_canSetTimeRemapEnabled T \<and> \<not> l_timeRemapEnabled T \<and> l_timeRemap T \<noteq> None
              \<and> sf \<le> ef \<and> 0 < FRAME_RATE st
              \<and> (\<forall>t. \<not> rejects h (SetLayer pre t PTimeRemapEnabled))
              \<and> (\<forall>t. \<not> rejects h (RemoveKey pre t))
              \<and> (\<forall>t x. \<not> rejects h (SetValueAtTime pre t x))
            \<Longrightarrow> l_timeRemapEnabled lay
              \<and> l_timeRemap lay = Some [(layerStartTime st sf, 0), (layerEndTime st sf ef, fd)]"
  proof -
    assume a: "l_canSetTimeRemapEnabled T \<and> \<not> l_timeRemapEnabled T \<and> l_timeRemap T \<noteq> None
              \<and> sf \<le> ef \<and> 0 < FRAME_RATE st
              \<and> (\<forall>t. \<not> rejects h (SetLayer pre t PTimeRemapEnabled))
              \<and> (\<forall>t. \<not> rejects h (RemoveKey pre t))
              \<and> (\<forall>t x. \<not> rejects h (SetValueAtTime pre t x))"
    then obtain keys where k: "l_timeRemap T = Some keys" by auto
    have "l_canSetTimeRemapEnabled B \<and> \<not> l_timeRemapEnabled B \<and> l_timeRemap B = Some keys
            \<and> sf \<le> ef \<and> 0 < FRAME_RATE st
            \<and> \<not> rejects h (SetLayer pre t0 PTimeRemapEnabled) \<and> \<not> rejects h (RemoveKey pre t0)
            \<and> (\<forall>x. \<not> rejects h (SetValueAtTime pre t0 x))"
      using a k B by simp
    with time_remap_block[OF diff', of B h pre t0 keys] have
      "lay = B\<lparr>l_timeRemapEnabled := True,
                l_timeRemap := Some [(layerStartTime st sf, 0), (layerEndTime st sf ef, fd)]\<rparr>"
      using layL by simp
    then show ?thesis by simp
  qed
  show ?thesis
  proof (rule bexI[OF _ mem])
    show "l_source lay = Some (SrcFootage fi)
         \<and> l_startTime lay = layerStartTime st (s_first it)
         \<and> l_outPoint lay = layerEndTime st (s_first it) (s_last it)
         \<and> (l_timeRemapEnabled (remap_target proj2 pre fi (sourceLayerName it)) \<longrightarrow>
              l_timeRemapEnabled lay
              \<and> l_timeRemap lay = l_timeRemap (remap_target proj2 pre fi (sourceLayerName it)))
         \<and> (l_canSetTimeRemapEnabled (remap_target proj2 pre fi (sourceLayerName it))
              \<and> \<not> l_timeRemapEnabled (remap_target proj2 pre fi (sourceLayerName it))
              \<and> l_timeRemap (remap_target proj2 pre fi (sourceLayerName it)) \<noteq> None
              \<and> s_first it \<le> s_last it \<and> 0 < FRAME_RATE st
              \<and> (\<forall>t. \<not> rejects h (SetLayer pre t PTimeRemapEnabled))
              \<and> (\<forall>t. \<not> rejects h (RemoveKey pre t))
              \<and> (\<forall>t x. \<not> rejects h (SetValueAtTime pre t x))
            \<longrightarrow> l_timeRemapEnabled lay
              \<and> l_timeRemap lay =
                  Some [(layerStartTime st (s_first it), 0),
                        (layerEndTime st (s_first it) (s_last it), item_duration proj2 (SrcFootage fi))])"
      using basic partA partB unfolding T_def name_def sf_def ef_def fd_def by blast
  qed
qed

theorem reconcile_time_remap_witness:
  "process_item host_media ex_settings 0 ex_shot [CompItem ex_main] = Inr (ex_resolved (25 / 6))
   \<and> \<bar>item_duration [CompItem ex_main, CompItem (ex_child []), FootageItem (ex_footage 0)] (SrcFootage 2)
        - layerDuration ex_settings (s_first ex_shot) (s_last ex_shot)\<bar> > 0.01
   \<and> \<not> l_timeRemapEnabled
         (remap_target [CompItem ex_main, CompItem (ex_child []), FootageItem (ex_footage 0)] 1 2
            (sourceLayerName ex_shot))
   \<and> (\<exists>lay. lay \<in> set (layers_of (ex_resolved (25 / 6)) 1)
          \<and> l_source lay = Some (SrcFootage 2) \<and> l_startTime lay = 0 \<and> l_outPoint lay = 25 / 6
          \<and> l_timeRemapEnabled lay \<and> l_timeRemap lay = Some [(0, 0), (25 / 6, 2)])
   \<and> process_item host_media ex_settings_short 0 (ex_shot\<lparr>s_last := 1080\<rparr>) (ex_resolved (25 / 6))
       = Inr (ex_resolved (10 / 3))
   \<and> \<bar>item_duration (ex_resolved (25 / 6)) (SrcFootage 2)
        - layerDuration ex_settings_short (s_first (ex_shot\<lparr>s_last := 1080\<rparr>))
            (s_last (ex_shot\<lparr>s_last := 1080\<rparr>))\<bar> > 0.01
   \<and> l_timeRemapEnabled
         (remap_target (ex_resolved (25 / 6)) 1 2 (sourceLayerName (ex_shot\<lparr>s_last := 1080\<rparr>)))
   \<and> (\<exists>lay. lay \<in> set (layers_of (ex_resolved (10 / 3)) 1)
          \<and> l_source lay = Some (SrcFootage 2) \<and> l_startTime lay = 0 \<and> l_outPoint lay = 10 / 3
          \<and> l_timeRemapEnabled lay \<and> l_timeRemap lay = Some [(0, 0), (25 / 6, 2)])"
proof -
  let ?p1 = "[CompItem ex_main, CompItem (ex_child [])]"
  let ?p2 = "[CompItem ex_main, CompItem (ex_child []), FootageItem (ex_footage 0)]"
  let ?it = "ex_shot\<lparr>s_last := 1080\<rparr>"
  have run1: "process_item host_media ex_settings 0 ex_shot [CompItem ex_main]
               = Inr (ex_resolved (25 / 6))"
    and pre1: "ensureComp host_media ex_settings (preName ex_shot) [CompItem ex_main] = Inr (1, ?p1)"
    and res1: "importOrUpdateSequence host_media (s_file ex_shot) (s_name ex_shot) ?p1
               = Inr (Some 2, ?p2)"
    and run2: "process_item host_media ex_settings_short 0 ?it (ex_resolved (25 / 6))
               = Inr (ex_resolved (10 / 3))"
    and pre2: "ensureComp host_media ex_settings_short (preName ?it) (ex_resolved (25 / 6))
               = Inr (1, ex_resolved (25 / 6))"
    and res2: "importOrUpdateSequence host_media (s_file ?it) (s_name ?it) (ex_resolved (25 / 6))
               = Inr (Some 2, ex_resolved (25 / 6))"
    by (simp_all add: ensureComp_def findCompByName_def is_comp_named_def syncCompSettings_def
        new_comp_def DURATION_def upd_comp_def Let_def importOrUpdateSequence_def
        findFootageByFirstFile_def findFootageByName_def has_file_def
        is_footage_named_def is_sequence_named_def reload_def file_of_item_def
        swap_source_def imported_def upd_footage_def process_item_def preName_def
        missingName_def sourceLayerName_def conform_footage_def add_placeholder_def
        solid_item_def solid_layer_def ensureSourceLayer_def bind_target_def
        is_source_layer_def interpret_footage_def set_timing_def set_name_def
        time_remap_def layerStartTime_def layerDuration_def layerEndTime_def
        nest_in_main_def shows_comp_named_def layer_of_item_def item_name_def
        item_duration_def item_can_remap_def layers_of_def set_layers_def remove_at_def
        host_media_def host_ok_def ex_settings_def ex_settings_short_def ex_shot_def
        ex_resolved_def ex_main_def ex_child_def ex_nested_def ex_source_layer_def
        ex_footage_def)
  have d1: "\<bar>item_duration ?p2 (SrcFootage 2)
              - layerDuration ex_settings (s_first ex_shot) (s_last ex_shot)\<bar> > 0.01"
    by (simp add: item_duration_def layerDuration_def ex_footage_def ex_settings_def ex_shot_def)
  have d2: "\<bar>item_duration (ex_resolved (25 / 6)) (SrcFootage 2)
              - layerDuration ex_settings_short (s_first ?it) (s_last ?it)\<bar> > 0.01"
    by (simp add: item_duration_def layerDuration_def ex_resolved_def ex_footage_def
        ex_settings_short_def ex_settings_def ex_shot_def)
  have keep: "\<forall>t. \<not> rejects host_media (ReplaceSource 1 t)"
    by (simp add: host_media_def host_ok_def)
  have T1: "remap_target ?p2 1 2 (sourceLayerName ex_shot)
              = \<lparr> l_name = ''/x/beauty.0001.exr'', l_source = Some (SrcFootage 2), l_startTime = 0,
                  l_inPoint = 0, l_outPoint = 2, l_canSetTimeRemapEnabled = True,
                  l_timeRemapEnabled = False, l_timeRemap = Some [] \<rparr>"
    by (simp add: remap_target_def layers_of_def ex_child_def ex_main_def layer_of_item_def
        item_name_def item_duration_def item_can_remap_def ex_footage_def)
  have T2: "remap_target (ex_resolved (25 / 6)) 1 2 (sourceLayerName ?it) = ex_source_layer (25 / 6)"
    by (simp add: remap_target_def layers_of_def ex_resolved_def ex_child_def ex_main_def
        is_source_layer_def sourceLayerName_def ex_source_layer_def ex_shot_def)
  have acc: "s_first ex_shot \<le> s_last ex_shot \<and> 0 < FRAME_RATE ex_settings
       \<and> (\<forall>t. \<not> rejects host_media (SetLayer 1 t PTimeRemapEnabled))
       \<and> (\<forall>t. \<not> rejects host_media (RemoveKey 1 t))
       \<and> (\<forall>t x. \<not> rejects host_media (SetValueAtTime 1 t x))"
    by (simp add: ex_shot_def ex_settings_def host_media_def host_ok_def)
  from reconcile_time_remap [OF run1 pre1 res1 d1 keep] T1 acc obtain lay1 where
    "lay1 \<in> set (layers_of (ex_resolved (25 / 6)) 1)"
    "l_source lay1 = Some (SrcFootage 2)"
    "l_startTime lay1 = layerStartTime ex_settings (s_first ex_shot)"
    "l_outPoint lay1 = layerEndTime ex_settings (s_first ex_shot) (s_last ex_shot)"
    "l_timeRemapEnabled lay1"
    "l_timeRemap lay1 = Some [(layerStartTime ex_settings (s_first ex_shot), 0),
        (layerEndTime ex_settings (s_first ex_shot) (s_last ex_shot), item_duration ?p2 (SrcFootage 2))]"
    by auto
  then have "lay1 \<in> set (layers_of (ex_resolved (25 / 6)) 1)
          \<and> l_source lay1 = Some (SrcFootage 2) \<and> l_startTime lay1 = 0 \<and> l_outPoint lay1 = 25 / 6
          \<and> l_timeRemapEnabled lay1 \<and> l_timeRemap lay1 = Some [(0, 0), (25 / 6, 2)]"
    by (simp add: layerStartTime_def layerEndTime_def layerDuration_def item_duration_def
        ex_footage_def ex_settings_def ex_shot_def)
  then have r1: "\<exists>lay. lay \<in> set (layers_of (ex_resolved (25 / 6)) 1)
          \<and> l_source lay = Some (SrcFootage 2) \<and> l_startTime lay = 0 \<and> l_outPoint lay = 25 / 6
          \<and> l_timeRemapEnabled lay \<and> l_timeRemap lay = Some [(0, 0), (25 / 6, 2)]"
    by blast
  have e2: "l_timeRemapEnabled (remap_target (ex_resolved (25 / 6)) 1 2 (sourceLayerName ?it))"
    using T2 by (simp add: ex_source_layer_def)
  have k2: "l_timeRemap (remap_target (ex_resolved (25 / 6)) 1 2 (sourceLayerName ?it))
              = Some [(0, 0), (25 / 6, 2)]"
    using T2 by (simp add: ex_source_layer_def)
  from reconcile_time_remap [OF run2 pre2 res2 d2 keep] e2 obtain lay2 where
    "lay2 \<in> set (layers_of (ex_resolved (10 / 3)) 1)"
    "l_source lay2 = Some (SrcFootage 2)"
    "l_startTime lay2 = layerStartTime ex_settings_short (s_first ?it)"
    "l_outPoint lay2 = layerEndTime ex_settings_short (s_first ?it) (s_last ?it)"
    "l_timeRemapEnabled lay2"
    "l_timeRemap lay2 = l_timeRemap (remap_target (ex_resolved (25 / 6)) 1 2 (sourceLayerName ?it))"
    by auto
  then have "lay2 \<in> set (layers_of (ex_resolved (10 / 3)) 1)
          \<and> l_source lay2 = Some (SrcFootage 2) \<and> l_startTime lay2 = 0 \<and> l_outPoint lay2 = 10 / 3
          \<and> l_timeRemapEnabled lay2 \<and> l_timeRemap lay2 = Some [(0, 0), (25 / 6, 2)]"
    using k2 by (simp add: layerStartTime_def layerEndTime_def layerDuration_def
        ex_settings_short_def ex_settings_def ex_shot_def)
  then have r2: "\<exists>lay. lay \<in> set (layers_of (ex_resolved (10 / 3)) 1)
          \<and> l_source lay = Some (SrcFootage 2) \<and> l_startTime lay = 0 \<and> l_outPoint lay = 10 / 3
          \<and> l_timeRemapEnabled lay \<and> l_timeRemap lay = Some [(0, 0), (25 / 6, 2)]"
    by blast
  have n1: "\<not> l_timeRemapEnabled (remap_target ?p2 1 2 (sourceLayerName ex_shot))"
    using T1 by simp
  from run1 d1 n1 r1 run2 d2 e2 r2 show ?thesis by blast
qed

text \<open>
  C6, as stated, fails on a run that finds time remapping enabled by an earlier run. The
  first run, for frames 1001 to 1100, installs the keyframes (0, 0) and (25/6, 2). The
  second run, with the shot ending at frame 1080, moves the out point to 10/3 and leaves the
  keyframes of the first run, although the natural duration 2 still differs from the layer
  duration 10/3: the keyframe at the layer end time 10/3 is not installed.
\<close>

theorem time_remap_stale_keys_counterexample:
  "reconcile host_media ex_settings [] = Inr (0, ex_resolved (25 / 6))
   \<and> reconcile host_media ex_settings_short (ex_resolved (25 / 6)) = Inr (0, ex_resolved (10 / 3))
   \<and> l_outPoint (ex_source_layer (10 / 3)) = 10 / 3
   \<and> l_timeRemap (ex_source_layer (10 / 3)) = Some [(0, 0), (25 / 6, 2)]
   \<and> layerStartTime ex_settings_short 1001 = 0
   \<and> layerEndTime ex_settings_short 1001 1080 = 10 / 3
   \<and> \<bar>2 - layerDuration ex_settings_short 1001 1080\<bar> > 1 / 100"
  by (simp add: reconcile_def ensureComp_def findCompByName_def is_comp_named_def
      syncCompSettings_def new_comp_def DURATION_def upd_comp_def Let_def
      importOrUpdateSequence_def findFootageByFirstFile_def findFootageByName_def
      has_file_def is_footage_named_def is_sequence_named_def reload_def
      file_of_item_def swap_source_def imported_def upd_footage_def process_item_def
      preName_def missingName_def sourceLayerName_def conform_footage_def
      add_placeholder_def solid_item_def solid_layer_def ensureSourceLayer_def
      bind_target_def is_source_layer_def interpret_footage_def set_timing_def
      set_name_def time_remap_def layerStartTime_def layerDuration_def layerEndTime_def
      nest_in_main_def shows_comp_named_def layer_of_item_def item_name_def
      item_duration_def item_can_remap_def layers_of_def set_layers_def remove_at_def
      host_media_def host_ok_def ex_settings_def ex_shot_def ex_settings_short_def
      ex_resolved_def ex_main_def ex_child_def ex_nested_def ex_source_layer_def
      ex_footage_def)

section \<open>The layers of an item after its reconciliation\<close>

text \<open>
  C8, as amended. After a run of the item that completes, and provided the host rejects no
  removal of a layer of the composition of the item, that composition holds at most one
  footage-backed layer with the reserved source-layer name; and when the footage is not
  resolved, it holds no layer with the source-layer name, and exactly one placeholder
  layer named \<open>name (Missing)\<close> if the host accepted \<^verbatim>\<open>addSolid\<close>, none if it rejected it.
\<close>

theorem item_layers_after_reconcile:
  assumes run: "process_item h st mainComp it proj = Inr proj'"
    and pre: "ensureComp h st (preName it) proj = Inr (pre, proj1)"
    and res: "importOrUpdateSequence h (s_file it) (s_name it) proj1 = Inr (footage, proj2)"
    and acc: "\<forall>i. \<not> rejects h (RemoveLayer pre i)"
  shows "length (filter (is_source_layer (sourceLayerName it)) (layers_of proj' pre)) \<le> 1
       \<and> (footage = None \<longrightarrow>
            length (filter (\<lambda>l. l_name l = missingName it) (layers_of proj' pre))
              = (if rejects h (AddSolid pre (missingName it)) then 0 else 1)
            \<and> filter (\<lambda>l. l_name l = sourceLayerName it) (layers_of proj' pre) = [])"
proof (cases footage)
  case None
  define ls0 where "ls0 = layers_of proj2 pre"
  define ls1 where "ls1 = snd (remove_loop h pre (\<lambda>l. l_name l = missingName it) None (length ls0) ls0)"
  define ls2 where "ls2 = snd (remove_loop h pre (\<lambda>l. l_name l = sourceLayerName it) None (length ls1) ls1)"
  have c: "is_comp_at proj2 pre"
    using ensureComp_is_comp[OF pre] importOrUpdateSequence_keeps_comp[OF res] by simp
  from run pre res None have ap: "add_placeholder h st pre (missingName it) ls2 proj2 = Inr proj'"
    by (simp add: process_item_def Let_def ls0_def ls1_def ls2_def)
  have m1: "filter (\<lambda>l. l_name l = missingName it) ls1 = []"
    unfolding ls1_def using remove_loop_filter[OF acc, of "length ls0" ls0 "\<lambda>l. l_name l = missingName it" None]
    by simp
  have s2: "filter (\<lambda>l. l_name l = sourceLayerName it) ls2 = []"
    unfolding ls2_def using remove_loop_filter[OF acc, of "length ls1" ls1 "\<lambda>l. l_name l = sourceLayerName it" None]
    by simp
  have sub: "set ls2 \<subseteq> set ls1" unfolding ls2_def by (rule remove_loop_subset) simp
  have m2: "filter (\<lambda>l. l_name l = missingName it) ls2 = []"
    using m1 sub by (auto simp: filter_empty_conv)
  have src2: "filter (is_source_layer (sourceLayerName it)) ls2 = []"
    using s2 by (auto simp: filter_empty_conv is_source_layer_def)
  show ?thesis
  proof (cases "rejects h (AddSolid pre (missingName it))")
    case True
    with ap have "layers_of proj' pre = ls2" using c by (auto simp: add_placeholder_def layers_of_set_layers)
    with m2 s2 src2 True None show ?thesis by simp
  next
    case False
    with ap have "layers_of proj' pre =
        (solid_layer st (missingName it) (length proj2))\<lparr>l_startTime := 0, l_outPoint := DURATION st\<rparr> # ls2"
      using c by (auto simp: add_placeholder_def layers_of_set_layers layers_of_append is_comp_at_def
          split: if_splits)
    with m2 s2 src2 False None names_differ[of it] show ?thesis
      by (auto simp: solid_layer_def is_source_layer_def)
  qed
next
  case (Some fi)
  define proj3 where "proj3 = conform_footage h st fi proj2"
  define ls1 where "ls1 = snd (remove_loop h pre (\<lambda>l. l_name l = missingName it) None
                                 (length (layers_of proj3 pre)) (layers_of proj3 pre))"
  define proj3' where "proj3' = set_layers pre ls1 proj3"
  from run pre res Some obtain r proj4 where
    esl: "ensureSourceLayer h st pre (Some fi) (sourceLayerName it) (s_first it) (s_last it) proj3' = Inr (r, proj4)"
    and nest: "nest_in_main h st mainComp pre (preName it) proj4 = Inr proj'"
    by (auto simp: process_item_def Let_def proj3_def ls1_def proj3'_def
        split: sum.splits if_splits)
  have c: "is_comp_at proj3' pre"
    using ensureComp_is_comp[OF pre] importOrUpdateSequence_keeps_comp[OF res]
    by (simp add: proj3'_def proj3_def conform_footage_def)
  from ensureSourceLayer_layers[OF esl c] obtain tg ls2 where
    l4: "layers_of proj4 pre = snd (remove_loop h pre (is_source_layer (sourceLayerName it)) (Some tg) (length ls2) ls2)"
    by blast
  have "length (filter (is_source_layer (sourceLayerName it)) (layers_of proj4 pre)) \<le> 1"
    unfolding l4
    using remove_loop_filter[OF acc, of "length ls2" ls2 "is_source_layer (sourceLayerName it)" "Some tg"]
    by simp
  moreover from nest_in_main_layers[OF nest, of pre] obtain extra where
    "layers_of proj' pre = extra @ layers_of proj4 pre" "\<forall>l\<in>set extra. l_source l = Some (SrcComp pre)"
    by blast
  then have "filter (is_source_layer (sourceLayerName it)) (layers_of proj' pre)
           = filter (is_source_layer (sourceLayerName it)) (layers_of proj4 pre)"
    by (auto simp: filter_empty_conv is_source_layer_def)
  ultimately show ?thesis using Some by simp
qed

theorem item_layers_after_reconcile_witness:
  "process_item host_ok ex_settings 0 ex_shot [CompItem ex_main] = Inr ex_once
   \<and> ensureComp host_ok ex_settings (preName ex_shot) [CompItem ex_main]
       = Inr (1, [CompItem ex_main, CompItem (ex_child [])])
   \<and> importOrUpdateSequence host_ok (s_file ex_shot) (s_name ex_shot)
         [CompItem ex_main, CompItem (ex_child [])]
       = Inr (None, [CompItem ex_main, CompItem (ex_child [])])
   \<and> (\<forall>i. \<not> rejects host_ok (RemoveLayer 1 i))
   \<and> \<not> rejects host_ok (AddSolid 1 (missingName ex_shot))
   \<and> length (filter (is_source_layer (sourceLayerName ex_shot)) (layers_of ex_once 1)) \<le> 1
   \<and> length (filter (\<lambda>l. l_name l = missingName ex_shot) (layers_of ex_once 1)) = 1
   \<and> filter (\<lambda>l. l_name l = sourceLayerName ex_shot) (layers_of ex_once 1) = []"
proof -
  have run: "process_item host_ok ex_settings 0 ex_shot [CompItem ex_main] = Inr ex_once"
    by (simp add: ensureComp_def findCompByName_def is_comp_named_def syncCompSettings_def
        new_comp_def DURATION_def upd_comp_def Let_def importOrUpdateSequence_def
        findFootageByFirstFile_def findFootageByName_def has_file_def
        is_footage_named_def is_sequence_named_def reload_def file_of_item_def
        swap_source_def imported_def upd_footage_def process_item_def preName_def
        missingName_def sourceLayerName_def conform_footage_def add_placeholder_def
        solid_item_def solid_layer_def ensureSourceLayer_def bind_target_def
        is_source_layer_def interpret_footage_def set_timing_def set_name_def
        time_remap_def layerStartTime_def layerDuration_def layerEndTime_def
        nest_in_main_def shows_comp_named_def layer_of_item_def item_name_def
        item_duration_def item_can_remap_def layers_of_def set_layers_def remove_at_def
        host_ok_def ex_settings_def ex_shot_def ex_once_def ex_main_def ex_child_def
        ex_placeholder_def ex_solid_def)
  have pre: "ensureComp host_ok ex_settings (preName ex_shot) [CompItem ex_main]
               = Inr (1, [CompItem ex_main, CompItem (ex_child [])])"
    by (simp add: ensureComp_def findCompByName_def is_comp_named_def syncCompSettings_def
        new_comp_def DURATION_def upd_comp_def Let_def importOrUpdateSequence_def
        findFootageByFirstFile_def findFootageByName_def has_file_def
        is_footage_named_def is_sequence_named_def reload_def file_of_item_def
        swap_source_def imported_def upd_footage_def process_item_def preName_def
        missingName_def sourceLayerName_def conform_footage_def add_placeholder_def
        solid_item_def solid_layer_def ensureSourceLayer_def bind_target_def
        is_source_layer_def interpret_footage_def set_timing_def set_name_def
        time_remap_def layerStartTime_def layerDuration_def layerEndTime_def
        nest_in_main_def shows_comp_named_def layer_of_item_def item_name_def
        item_duration_def item_can_remap_def layers_of_def set_layers_def remove_at_def
        host_ok_def ex_settings_def ex_shot_def ex_once_def ex_main_def ex_child_def
        ex_placeholder_def ex_solid_def)
  have res: "importOrUpdateSequence host_ok (s_file ex_shot) (s_name ex_shot)
                 [CompItem ex_main, CompItem (ex_child [])]
               = Inr (None, [CompItem ex_main, CompItem (ex_child [])])"
    by (simp add: ensureComp_def findCompByName_def is_comp_named_def syncCompSettings_def
        new_comp_def DURATION_def upd_comp_def Let_def importOrUpdateSequence_def
        findFootageByFirstFile_def findFootageByName_def has_file_def
        is_footage_named_def is_sequence_named_def reload_def file_of_item_def
        swap_source_def imported_def upd_footage_def process_item_def preName_def
        missingName_def sourceLayerName_def conform_footage_def add_placeholder_def
        solid_item_def solid_layer_def ensureSourceLayer_def bind_target_def
        is_source_layer_def interpret_footage_def set_timing_def set_name_def
        time_remap_def layerStartTime_def layerDuration_def layerEndTime_def
        nest_in_main_def shows_comp_named_def layer_of_item_def item_name_def
        item_duration_def item_can_remap_def layers_of_def set_layers_def remove_at_def
        host_ok_def ex_settings_def ex_shot_def ex_once_def ex_main_def ex_child_def
        ex_placeholder_def ex_solid_def)
  have acc: "\<forall>i. \<not> rejects host_ok (RemoveLayer 1 i)" by (simp add: host_ok_def)
  have sol: "\<not> rejects host_ok (AddSolid 1 (missingName ex_shot))" by (simp add: host_ok_def)
  from item_layers_after_reconcile [OF run pre res acc] sol
  have "length (filter (is_source_layer (sourceLayerName ex_shot)) (layers_of ex_once 1)) \<le> 1
   \<and> length (filter (\<lambda>l. l_name l = missingName ex_shot) (layers_of ex_once 1)) = 1
   \<and> filter (\<lambda>l. l_name l = sourceLayerName ex_shot) (layers_of ex_once 1) = []"
    by simp
  with run pre res acc sol show ?thesis by blast
qed

text \<open>
  C8, as stated, fails when the host rejects \<^verbatim>\<open>addSolid\<close>, which line 646 catches: the
  footage of the shot is not resolved and its composition is left without any placeholder
  layer.
\<close>

theorem placeholder_missing_counterexample:
  "importOrUpdateSequence host_no_solid (s_file ex_shot) (s_name ex_shot)
       [CompItem ex_main, CompItem (ex_child [])]
     = Inr (None, [CompItem ex_main, CompItem (ex_child [])])
   \<and> process_item host_no_solid ex_settings 0 ex_shot [CompItem ex_main]
       = Inr [CompItem ex_main, CompItem (ex_child [])]
   \<and> layers_of [CompItem ex_main, CompItem (ex_child [])] 1 = []"
  by (simp add: ensureComp_def findCompByName_def is_comp_named_def syncCompSettings_def
      new_comp_def DURATION_def upd_comp_def Let_def importOrUpdateSequence_def
      findFootageByFirstFile_def findFootageByName_def has_file_def is_footage_named_def
      is_sequence_named_def reload_def file_of_item_def swap_source_def imported_def
      upd_footage_def process_item_def preName_def missingName_def sourceLayerName_def
      conform_footage_def add_placeholder_def solid_item_def solid_layer_def
      ensureSourceLayer_def bind_target_def is_source_layer_def interpret_footage_def
      set_timing_def set_name_def time_remap_def layerStartTime_def layerDuration_def
      layerEndTime_def nest_in_main_def shows_comp_named_def layer_of_item_def
      item_name_def item_duration_def item_can_remap_def layers_of_def set_layers_def
      remove_at_def host_no_solid_def host_ok_def ex_settings_def ex_shot_def
      ex_main_def ex_child_def)

section \<open>Runs of the scripts\<close>

text \<open>
  A run of an item whose footage is not resolved adds one item to the project whenever the
  host accepts \<^verbatim>\<open>addSolid\<close>, whatever the project held before.
\<close>

lemma unresolved_run_adds_item:
  assumes run: "process_item h st mainComp it proj = Inr proj'"
    and pre: "ensureComp h st (preName it) proj = Inr (pre, proj1)"
    and res: "importOrUpdateSequence h (s_file it) (s_name it) proj1 = Inr (None, proj2)"
    and acc: "\<not> rejects h (AddSolid pre (missingName it))"
  shows "length proj' = Suc (length proj2)"
  using run pre res acc
  by (auto simp: process_item_def Let_def add_placeholder_def split: if_splits)

text \<open>
  C1. The claim fails on the code: with a shot whose file does not exist, the first
  reconciliation of the empty project creates one solid item for the placeholder, and a
  second reconciliation with the same configuration removes the placeholder layer, creates
  a new one and with it a second solid item. The project after two runs has four items,
  after one run three.
\<close>

theorem second_run_adds_solid_item:
  "reconcile host_ok ex_settings [] = Inr (0, ex_once)
   \<and> reconcile host_ok ex_settings ex_once = Inr (0, ex_twice)
   \<and> ex_twice \<noteq> ex_once
   \<and> length ex_once = 3 \<and> length ex_twice = 4"
  by (simp add: reconcile_def ensureComp_def findCompByName_def is_comp_named_def
      syncCompSettings_def new_comp_def DURATION_def upd_comp_def Let_def
      importOrUpdateSequence_def findFootageByFirstFile_def findFootageByName_def
      has_file_def is_footage_named_def is_sequence_named_def reload_def
      file_of_item_def swap_source_def imported_def upd_footage_def process_item_def
      preName_def missingName_def sourceLayerName_def conform_footage_def
      add_placeholder_def solid_item_def solid_layer_def ensureSourceLayer_def
      bind_target_def is_source_layer_def interpret_footage_def set_timing_def
      set_name_def time_remap_def layerStartTime_def layerDuration_def layerEndTime_def
      nest_in_main_def shows_comp_named_def layer_of_item_def item_name_def
      item_duration_def item_can_remap_def layers_of_def set_layers_def remove_at_def
      host_ok_def ex_settings_def ex_shot_def ex_once_def ex_main_def ex_child_def
      ex_placeholder_def ex_solid_def ex_twice_def)

theorem second_run_adds_solid_item_witness:
  "reconcile host_ok ex_settings ex_once = Inr (0, ex_twice) \<and> ex_twice \<noteq> ex_once"
  using second_run_adds_solid_item by blast

text \<open>
  C3. The claim fails on the code: the import of a new sequence (line 443) is outside any
  \<^verbatim>\<open>try\<close>. When the file exists, no footage item matches it and the host rejects the
  import, the exception leaves \<open>importOrUpdateSequence\<close> and ends the run in the
  \<^verbatim>\<open>catch\<close> of the script, with the error log and the alert.
\<close>

theorem import_failure_leaves_resolver:
  "file_exists host_import_fails (Some ''/x/beauty.0001.exr'')
   \<and> importOrUpdateSequence host_import_fails (Some ''/x/beauty.0001.exr'') ''beauty'' []
       = Inl (HostRejected ''importFile'')
   \<and> startup_body host_import_fails ex_settings ex_app
       = Aborted (HostRejected ''importFile'')
           [EvNewProject, EvErrorLog ''importFile'', EvAlert ''importFile'']"
  by (simp add: startup_body_def open_or_new_def save_project_def startup_failed_def
      error_text_def reconcile_def ensureComp_def findCompByName_def is_comp_named_def
      syncCompSettings_def new_comp_def DURATION_def upd_comp_def Let_def
      importOrUpdateSequence_def findFootageByFirstFile_def findFootageByName_def
      has_file_def is_footage_named_def is_sequence_named_def reload_def
      file_of_item_def swap_source_def imported_def upd_footage_def process_item_def
      preName_def missingName_def sourceLayerName_def conform_footage_def
      add_placeholder_def solid_item_def solid_layer_def ensureSourceLayer_def
      bind_target_def is_source_layer_def interpret_footage_def set_timing_def
      set_name_def time_remap_def layerStartTime_def layerDuration_def layerEndTime_def
      nest_in_main_def shows_comp_named_def layer_of_item_def item_name_def
      item_duration_def item_can_remap_def layers_of_def set_layers_def remove_at_def
      host_import_fails_def host_media_def host_ok_def ex_app_def ex_settings_def
      ex_shot_def)

theorem import_failure_leaves_resolver_witness:
  "importOrUpdateSequence host_import_fails (Some ''/x/beauty.0001.exr'') ''beauty'' []
     = Inl (HostRejected ''importFile'')"
  using import_failure_leaves_resolver by blast

text \<open>The other steps of the resolution never throw: only the import does.\<close>

lemma resolver_throws_only_on_import:
  assumes "importOrUpdateSequence h file name proj = Inl e"
  shows "e = HostRejected ''importFile'' \<and> (\<exists>f. file = Some f \<and> rejects h (ImportFile f))"
  using assms
  by (auto simp: importOrUpdateSequence_def split: option.splits if_splits)

text \<open>
  The fallback of the start frame: whenever it is taken, the time it assigns denotes the
  frame before \<open>GLOBAL_FIRST\<close>.
\<close>

lemma fallback_start_frame:
  assumes "rejects h (SetComp ci PDisplayStartFrame)"
    and "\<not> rejects h (SetComp ci PDisplayStartTime)"
    and "FRAME_RATE st \<noteq> 0"
  shows "frame_of_time st (c_displayStartTime (syncCompSettings h st ci c)) = GLOBAL_FIRST st - 1"
  using assms by (simp add: syncCompSettings_def frame_of_time_def Let_def)

text \<open>
  C5. The claim fails on the code: with the global first frame 1001 at 24 frames per
  second and a host without the setter \<^verbatim>\<open>displayStartFrame\<close>, both scripts assign the
  display start time 1000/24, which denotes frame 1000, whereas the primary mechanism
  assigns the start frame 1001.
\<close>

theorem display_start_fallback_one_frame_early:
  "rejects host_no_frame_setter (SetComp 0 PDisplayStartFrame)
   \<and> c_displayStartTime
        (syncCompSettings host_no_frame_setter ex_settings 0 (new_comp ex_settings ''AEBridge''))
       = 1000 / 24
   \<and> c_displayStartTime (render_comp_settings host_no_frame_setter ex_render_settings 0 ex_main)
       = 1000 / 24
   \<and> frame_of_time ex_settings (1000 / 24) = 1000
   \<and> GLOBAL_FIRST ex_settings = 1001
   \<and> c_displayStartFrame
        (syncCompSettings host_ok ex_settings 0 (new_comp ex_settings ''AEBridge''))
       = 1001"
  by (simp add: syncCompSettings_def new_comp_def DURATION_def Let_def frame_of_time_def
      render_comp_settings_def durationFrames_def host_no_frame_setter_def host_ok_def
      ex_settings_def ex_render_settings_def ex_main_def)

theorem display_start_fallback_one_frame_early_witness:
  "c_displayStartTime
     (syncCompSettings host_no_frame_setter ex_settings 0 (new_comp ex_settings ''AEBridge''))
     = 1000 / 24
   \<and> frame_of_time ex_settings (1000 / 24) = 1000
   \<and> GLOBAL_FIRST ex_settings = 1001"
  using display_start_fallback_one_frame_early by blast

text \<open>The render-only script stops on a missing \<^verbatim>\<open>project_path\<close> before it opens anything.\<close>

lemma render_missing_project_path:
  assumes "\<not> truthy (cfg ''project_path'')"
  shows "render_script h cfg a =
           Aborted (Fatal missing_fields_msg)
             (events a @ [EvErrorLog missing_fields_msg, EvAlert missing_fields_msg])"
  using assms
  by (simp add: render_script_def render_required_missing_def render_vars_of_def Let_def
      alertAndStop_def)

text \<open>
  C9. The claim fails on the code for the startup script, which never checks
  \<^verbatim>\<open>project_path\<close>: with a configuration that has none, it creates a new project, adds
  the main composition, saves the project and logs success. The render-only script stops
  with the fatal error on the same configuration.
\<close>

theorem startup_runs_without_project_path:
  "ex_config_no_path ''project_path'' = None
   \<and> startup host_ok ex_config_no_path ex_app =
       Completed \<lparr> project = [CompItem ex_main], open_file = None, render_queue = [],
                   events = [EvNewProject, EvSaved None, EvSuccessLog None ''AEBridge''] \<rparr>
   \<and> render_script host_ok ex_config_no_path ex_app =
       Aborted (Fatal missing_fields_msg) [EvErrorLog missing_fields_msg, EvAlert missing_fields_msg]"
  by (simp add: startup_def startup_body_def settings_of_def startup_vars_of_def js_or_def
      open_or_new_def save_project_def startup_failed_def error_text_def reconcile_def
      ensureComp_def findCompByName_def is_comp_named_def syncCompSettings_def
      new_comp_def DURATION_def upd_comp_def Let_def importOrUpdateSequence_def
      findFootageByFirstFile_def findFootageByName_def has_file_def is_footage_named_def
      is_sequence_named_def reload_def file_of_item_def swap_source_def imported_def
      upd_footage_def process_item_def preName_def missingName_def sourceLayerName_def
      conform_footage_def add_placeholder_def solid_item_def solid_layer_def
      ensureSourceLayer_def bind_target_def is_source_layer_def interpret_footage_def
      set_timing_def set_name_def time_remap_def layerStartTime_def layerDuration_def
      layerEndTime_def nest_in_main_def shows_comp_named_def layer_of_item_def
      item_name_def item_duration_def item_can_remap_def layers_of_def set_layers_def
      remove_at_def render_script_def render_vars_of_def render_required_missing_def
      alertAndStop_def host_ok_def ex_config_no_path_def ex_app_def ex_main_def)

theorem startup_runs_without_project_path_witness:
  "\<exists>a. startup host_ok ex_config_no_path ex_app = Completed a"
  using startup_runs_without_project_path by blast

text \<open>
  An item without \<^verbatim>\<open>first\<close> and \<^verbatim>\<open>last\<close> whose file does not exist: the script never
  reads the two fields, and the run completes with the placeholder of the item.
\<close>

lemma startup_item_without_range:
  "shot_of (JObj [(''name'', JStr ''beauty''), (''path'', JStr ''/x/beauty.0001.exr'')])
     = Some (ex_shot\<lparr>s_first := 0, s_last := 0, s_numeric := False\<rparr>)
   \<and> startup host_ok ex_config_no_range ex_app =
       Completed \<lparr> project = ex_once, open_file = None, render_queue = [],
                   events = [EvNewProject, EvSaved None, EvSuccessLog None ''AEBridge''] \<rparr>"
  by (simp add: shot_of_def file_of_shot_def first_file_or_path_def
      startup_def startup_body_def settings_of_def startup_vars_of_def js_or_def
      open_or_new_def save_project_def startup_failed_def error_text_def reconcile_def
      ensureComp_def findCompByName_def is_comp_named_def syncCompSettings_def
      new_comp_def DURATION_def upd_comp_def Let_def importOrUpdateSequence_def
      findFootageByFirstFile_def findFootageByName_def has_file_def is_footage_named_def
      is_sequence_named_def reload_def file_of_item_def swap_source_def imported_def
      upd_footage_def process_item_def preName_def missingName_def sourceLayerName_def
      conform_footage_def add_placeholder_def solid_item_def solid_layer_def
      nest_in_main_def shows_comp_named_def layer_of_item_def
      item_name_def item_duration_def item_can_remap_def layers_of_def set_layers_def
      remove_at_def host_ok_def ex_config_no_range_def ex_app_def ex_main_def ex_shot_def
      ex_once_def ex_child_def ex_placeholder_def ex_solid_def)

end
